theory Spec2Isabelle
  imports Main "HOL-Library.Product_Lexorder"
begin

section \<open>Errors\<close>

text \<open>
  Every Python exception the modelled code can raise is a value.  A computation that
  may raise returns \<open>error + 'a\<close>, with \<open>Inl\<close> for the exception.
\<close>

datatype error = ValueError | AssertionError | AttributeError | IndexError | StopIteration
  | TypeError | RecursionError

fun bind_err :: "error + 'a \<Rightarrow> ('a \<Rightarrow> error + 'b) \<Rightarrow> error + 'b" where
  "bind_err (Inl e) f = Inl e"
| "bind_err (Inr x) f = f x"

fun map_err :: "('a \<Rightarrow> error + 'b) \<Rightarrow> 'a list \<Rightarrow> error + 'b list" where
  "map_err f [] = Inr []"
| "map_err f (x # xs) =
     (case f x of
        Inl e \<Rightarrow> Inl e
      | Inr y \<Rightarrow> (case map_err f xs of Inl e \<Rightarrow> Inl e | Inr ys \<Rightarrow> Inr (y # ys)))"

section \<open>maths.py: Point and Matrix\<close>

text \<open>
  \<open>Point\<close> holds three Python integers (unbounded, hence \<open>int\<close>);
  \<open>Matrix\<close> holds exactly nine values (its constructor raises otherwise).
\<close>

datatype point = Point (px: int) (py: int) (pz: int)

datatype matrix = Matrix int int int int int int int int int

definition point_add :: "point \<Rightarrow> point \<Rightarrow> point" where
  "point_add a b = Point (px a + px b) (py a + py b) (pz a + pz b)"

definition point_sub :: "point \<Rightarrow> point \<Rightarrow> point" where
  "point_sub a b = Point (px a - px b) (py a - py b) (pz a - pz b)"

definition dot :: "point \<Rightarrow> point \<Rightarrow> int" where
  "dot a b = px a * px b + py a * py b + pz a * pz b"

text \<open>\<open>Point.__iter__\<close>: the components in order.\<close>

definition point_iter :: "point \<Rightarrow> int list" where
  "point_iter p = [px p, py p, pz p]"

text \<open>\<open>Point.__getitem__\<close>: an index other than 0, 1, 2 raises \<open>IndexError\<close>.\<close>

definition point_getitem :: "point \<Rightarrow> nat \<Rightarrow> error + int" where
  "point_getitem p item =
     (if item = 0 then Inr (px p)
      else if item = 1 then Inr (py p)
      else if item = 2 then Inr (pz p)
      else Inl IndexError)"

text \<open>\<open>Point.count\<close>.\<close>

definition point_count :: "point \<Rightarrow> int \<Rightarrow> nat" where
  "point_count p val =
     (if px p = val then 1 else 0) + (if py p = val then 1 else 0) + (if pz p = val then 1 else 0)"

text \<open>\<open>Matrix.__mul__\<close> with a \<open>Point\<close>: one dot product for each row.\<close>

fun mat_mul_point :: "matrix \<Rightarrow> point \<Rightarrow> point" where
  "mat_mul_point (Matrix a b c d e f g h i) p =
     Point (dot p (Point a b c)) (dot p (Point d e f)) (dot p (Point g h i))"

section \<open>cube.py: constants\<close>

definition RIGHT :: point where "RIGHT = Point 1 0 0"
definition LEFT :: point where "LEFT = Point (-1) 0 0"
definition UP :: point where "UP = Point 0 1 0"
definition DOWN :: point where "DOWN = Point 0 (-1) 0"
definition FRONT :: point where "FRONT = Point 0 0 1"
definition BACK :: point where "BACK = Point 0 0 (-1)"

definition X_AXIS :: point where "X_AXIS = RIGHT"
definition Y_AXIS :: point where "Y_AXIS = UP"
definition Z_AXIS :: point where "Z_AXIS = FRONT"

datatype piece_type = FACE | EDGE | CORNER

definition ROT_XY_CW :: matrix where "ROT_XY_CW = Matrix 0 1 0 (-1) 0 0 0 0 1"
definition ROT_XY_CC :: matrix where "ROT_XY_CC = Matrix 0 (-1) 0 1 0 0 0 0 1"
definition ROT_XZ_CW :: matrix where "ROT_XZ_CW = Matrix 0 0 (-1) 0 1 0 1 0 0"
definition ROT_XZ_CC :: matrix where "ROT_XZ_CC = Matrix 0 0 1 0 1 0 (-1) 0 0"
definition ROT_YZ_CW :: matrix where "ROT_YZ_CW = Matrix 1 0 0 0 0 1 0 (-1) 0"
definition ROT_YZ_CC :: matrix where "ROT_YZ_CC = Matrix 1 0 0 0 0 (-1) 0 1 0"

definition canonical_rotations :: "matrix list" where
  "canonical_rotations = [ROT_XY_CW, ROT_XY_CC, ROT_XZ_CW, ROT_XZ_CC, ROT_YZ_CW, ROT_YZ_CC]"

section \<open>cube.py: Piece\<close>

text \<open>
  A piece has a position, a list of colour slots (a sticker character or \<open>None\<close>) and
  the kind computed once by the constructor.
\<close>

record piece =
  pos :: point
  colors :: "char option list"
  ptype :: piece_type

text \<open>\<open>Piece.__init__\<close> with \<open>_set_piece_type\<close>: both assertions and the
  \<open>ValueError\<close> of a piece without colours are branches.\<close>

definition Piece :: "point \<Rightarrow> char option list \<Rightarrow> error + piece" where
  "Piece p cs =
     (if \<not> list_all (\<lambda>x. x \<in> {-1, 0, 1}) (point_iter p) then Inl AssertionError
      else if length cs \<noteq> 3 then Inl AssertionError
      else if count_list cs None = 2 then Inr \<lparr>pos = p, colors = cs, ptype = FACE\<rparr>
      else if count_list cs None = 1 then Inr \<lparr>pos = p, colors = cs, ptype = EDGE\<rparr>
      else if count_list cs None = 0 then Inr \<lparr>pos = p, colors = cs, ptype = CORNER\<rparr>
      else Inl ValueError)"

text \<open>The indices of the nonzero components: \<open>(i for i, x in enumerate(rot) if x != 0)\<close>.\<close>

definition nonzero_indices :: "point \<Rightarrow> nat list" where
  "nonzero_indices p = [i \<leftarrow> [0, 1, 2]. point_iter p ! i \<noteq> 0]"

text \<open>
  Methods that mutate an object return the new state together with the exception they
  raised, if any: an exception leaves the mutations made before it in place.
\<close>

type_synonym 'a result = "'a \<times> error option"

text \<open>
  \<open>Piece.rotate\<close>.  The position is assigned first.  Unpacking the generator into
  \<open>i, j\<close> raises \<open>ValueError\<close> unless it yields exactly two indices; the swap
  reads both slots before it writes and raises \<open>IndexError\<close> on a colour list that
  is too short.
\<close>

definition piece_rotate :: "matrix \<Rightarrow> piece \<Rightarrow> piece result" where
  "piece_rotate m p =
     (let old_pos = pos p;
          p1 = p\<lparr>pos := mat_mul_point m old_pos\<rparr>;
          rot = point_sub (pos p1) old_pos
      in if \<not> list_ex (\<lambda>x. x \<noteq> 0) (point_iter rot) then (p1, None)
         else
           let rot2 = (if point_count rot 0 = 2 then point_add rot (mat_mul_point m rot) else rot)
           in case nonzero_indices rot2 of
                [i, j] \<Rightarrow>
                  if j < length (colors p1) \<and> i < length (colors p1)
                  then (p1\<lparr>colors := (colors p1)[i := colors p1 ! j, j := colors p1 ! i]\<rparr>, None)
                  else (p1, Some IndexError)
              | _ \<Rightarrow> (p1, Some ValueError))"

section \<open>cube.py: Cube\<close>

text \<open>
  The cube is its list \<open>pieces = faces + edges + corners\<close>: the six face pieces, then
  the twelve edges, then the eight corners.  The list never changes its length or order;
  a move mutates piece objects in place.  A reference to a piece object is therefore its
  index in this list.
\<close>

type_synonym cube = "piece list"

text \<open>\<open>Cube._face\<close>: references to the pieces on a face, in list order.\<close>

definition cube_face :: "cube \<Rightarrow> point \<Rightarrow> error + nat list" where
  "cube_face c axis =
     (if point_count axis 0 \<noteq> 2 then Inl AssertionError
      else Inr [i \<leftarrow> [0..<length c]. 0 < dot (pos (c ! i)) axis])"

text \<open>\<open>Cube._slice\<close>: \<open>next\<close> takes the first zero component of the plane.\<close>

definition cube_slice :: "cube \<Rightarrow> point \<Rightarrow> error + nat list" where
  "cube_slice c plane =
     (if point_count plane 0 \<noteq> 1 then Inl AssertionError
      else case [i \<leftarrow> [0, 1, 2]. point_iter plane ! i = 0] of
             i # _ \<Rightarrow> Inr [k \<leftarrow> [0..<length c]. point_iter (pos (c ! k)) ! i = 0]
           | [] \<Rightarrow> Inl StopIteration)"

text \<open>\<open>Cube._rotate_pieces\<close>: the referenced pieces are rotated one after the other;
  the first exception stops the loop.  References come from \<open>cube_face\<close>,
  \<open>cube_slice\<close> or the whole list, so they are in range.\<close>

fun rotate_pieces :: "cube \<Rightarrow> nat list \<Rightarrow> matrix \<Rightarrow> cube result" where
  "rotate_pieces c [] m = (c, None)"
| "rotate_pieces c (i # refs) m =
     (case piece_rotate m (c ! i) of
        (p, Some e) \<Rightarrow> (c[i := p], Some e)
      | (p, None) \<Rightarrow> rotate_pieces (c[i := p]) refs m)"

definition rotate_face :: "cube \<Rightarrow> point \<Rightarrow> matrix \<Rightarrow> cube result" where
  "rotate_face c face m =
     (case cube_face c face of Inl e \<Rightarrow> (c, Some e) | Inr refs \<Rightarrow> rotate_pieces c refs m)"

definition rotate_slice :: "cube \<Rightarrow> point \<Rightarrow> matrix \<Rightarrow> cube result" where
  "rotate_slice c plane m =
     (case cube_slice c plane of Inl e \<Rightarrow> (c, Some e) | Inr refs \<Rightarrow> rotate_pieces c refs m)"

definition L :: "cube \<Rightarrow> cube result" where "L c = rotate_face c LEFT ROT_YZ_CC"
definition Li :: "cube \<Rightarrow> cube result" where "Li c = rotate_face c LEFT ROT_YZ_CW"
definition R :: "cube \<Rightarrow> cube result" where "R c = rotate_face c RIGHT ROT_YZ_CW"
definition Ri :: "cube \<Rightarrow> cube result" where "Ri c = rotate_face c RIGHT ROT_YZ_CC"
definition U :: "cube \<Rightarrow> cube result" where "U c = rotate_face c UP ROT_XZ_CW"
definition Ui :: "cube \<Rightarrow> cube result" where "Ui c = rotate_face c UP ROT_XZ_CC"
definition D :: "cube \<Rightarrow> cube result" where "D c = rotate_face c DOWN ROT_XZ_CC"
definition Di :: "cube \<Rightarrow> cube result" where "Di c = rotate_face c DOWN ROT_XZ_CW"
definition F :: "cube \<Rightarrow> cube result" where "F c = rotate_face c FRONT ROT_XY_CW"
definition Fi :: "cube \<Rightarrow> cube result" where "Fi c = rotate_face c FRONT ROT_XY_CC"
definition B :: "cube \<Rightarrow> cube result" where "B c = rotate_face c BACK ROT_XY_CC"
definition Bi :: "cube \<Rightarrow> cube result" where "Bi c = rotate_face c BACK ROT_XY_CW"
definition M :: "cube \<Rightarrow> cube result" where
  "M c = rotate_slice c (point_add Y_AXIS Z_AXIS) ROT_YZ_CC"
definition Mi :: "cube \<Rightarrow> cube result" where
  "Mi c = rotate_slice c (point_add Y_AXIS Z_AXIS) ROT_YZ_CW"
definition E :: "cube \<Rightarrow> cube result" where
  "E c = rotate_slice c (point_add X_AXIS Z_AXIS) ROT_XZ_CC"
definition Ei :: "cube \<Rightarrow> cube result" where
  "Ei c = rotate_slice c (point_add X_AXIS Z_AXIS) ROT_XZ_CW"
definition S :: "cube \<Rightarrow> cube result" where
  "S c = rotate_slice c (point_add X_AXIS Y_AXIS) ROT_XY_CW"
definition Si :: "cube \<Rightarrow> cube result" where
  "Si c = rotate_slice c (point_add X_AXIS Y_AXIS) ROT_XY_CC"
definition X :: "cube \<Rightarrow> cube result" where "X c = rotate_pieces c [0..<length c] ROT_YZ_CW"
definition Xi :: "cube \<Rightarrow> cube result" where "Xi c = rotate_pieces c [0..<length c] ROT_YZ_CC"
definition Y :: "cube \<Rightarrow> cube result" where "Y c = rotate_pieces c [0..<length c] ROT_XZ_CW"
definition Yi :: "cube \<Rightarrow> cube result" where "Yi c = rotate_pieces c [0..<length c] ROT_XZ_CC"
definition Z :: "cube \<Rightarrow> cube result" where "Z c = rotate_pieces c [0..<length c] ROT_XY_CW"
definition Zi :: "cube \<Rightarrow> cube result" where "Zi c = rotate_pieces c [0..<length c] ROT_XY_CC"

text \<open>The 24 move methods of the class, by name.\<close>

definition move_table :: "(string \<times> (cube \<Rightarrow> cube result)) list" where
  "move_table =
     [(''L'', L), (''Li'', Li), (''R'', R), (''Ri'', Ri), (''U'', U), (''Ui'', Ui),
      (''D'', D), (''Di'', Di), (''F'', F), (''Fi'', Fi), (''B'', B), (''Bi'', Bi),
      (''M'', M), (''Mi'', Mi), (''E'', E), (''Ei'', Ei), (''S'', S), (''Si'', Si),
      (''X'', X), (''Xi'', Xi), (''Y'', Y), (''Yi'', Yi), (''Z'', Z), (''Zi'', Zi)]"

definition move_names :: "string list" where
  "move_names = map fst move_table"


text \<open>
  Python strings are modelled as lists of \<open>char\<close>, that is, of code points below 256.
  \<open>string.whitespace\<close> is the six ASCII characters; \<open>str.split()\<close> and
  \<open>str.strip()\<close> without argument use \<open>str.isspace\<close>, which below 256 is true
  for twelve code points.
\<close>

definition string_whitespace :: string where
  "string_whitespace = [CHR '' '', CHR 0x09, CHR 0x0A, CHR 0x0D, CHR 0x0B, CHR 0x0C]"

definition isspace :: "char \<Rightarrow> bool" where
  "isspace ch = (ch \<in> set [CHR 0x09, CHR 0x0A, CHR 0x0B, CHR 0x0C, CHR 0x0D, CHR 0x1C, CHR 0x1D,
                             CHR 0x1E, CHR 0x1F, CHR '' '', CHR 0x85, CHR 0xA0])"

fun split_from :: "string \<Rightarrow> string \<Rightarrow> string list" where
  "split_from cur [] = (if cur = [] then [] else [cur])"
| "split_from cur (ch # s) =
     (if isspace ch then (if cur = [] then split_from [] s else cur # split_from [] s)
      else split_from (cur @ [ch]) s)"

text \<open>\<open>str.split()\<close>: the maximal runs of characters that are not whitespace.\<close>

definition split :: "string \<Rightarrow> string list" where
  "split s = split_from [] s"

text \<open>\<open>str.strip()\<close>.\<close>

definition strip :: "string \<Rightarrow> string" where
  "strip s = rev (dropWhile isspace (rev (dropWhile isspace s)))"

text \<open>
  \<open>getattr(self, name)\<close>.  The 24 move methods are looked up in \<open>move_table\<close>.
  The other attributes of a \<open>Cube\<close> object (the remaining methods and fields of the
  class and everything inherited from \<open>object\<close>) are a parameter: \<open>other name\<close>
  is what calling that attribute without argument does, or \<open>None\<close> when the object
  has no attribute of that name.
\<close>

definition getattr ::
  "(string \<Rightarrow> (cube \<Rightarrow> cube result) option) \<Rightarrow> string \<Rightarrow> error + (cube \<Rightarrow> cube result)" where
  "getattr other name =
     (case map_of move_table name of
        Some mv \<Rightarrow> Inr mv
      | None \<Rightarrow> (case other name of Some f \<Rightarrow> Inr f | None \<Rightarrow> Inl AttributeError))"

fun call_all :: "cube \<Rightarrow> (cube \<Rightarrow> cube result) list \<Rightarrow> cube result" where
  "call_all c [] = (c, None)"
| "call_all c (mv # moves) =
     (case mv c of (c', Some e) \<Rightarrow> (c', Some e) | (c', None) \<Rightarrow> call_all c' moves)"

text \<open>\<open>Cube.sequence\<close>: the list comprehension resolves every name before the loop
  calls the first move.\<close>

definition sequence ::
  "(string \<Rightarrow> (cube \<Rightarrow> cube result) option) \<Rightarrow> cube \<Rightarrow> string \<Rightarrow> cube result" where
  "sequence other c move_str =
     (case map_err (getattr other) (split move_str) of
        Inl e \<Rightarrow> (c, Some e)
      | Inr moves \<Rightarrow> call_all c moves)"

text \<open>\<open>Cube._assert_data\<close>, on \<open>faces\<close>, \<open>edges\<close> and \<open>corners\<close> as the three
  segments of the piece list.\<close>

definition assert_data :: "piece list \<Rightarrow> piece list \<Rightarrow> piece list \<Rightarrow> error + cube" where
  "assert_data faces edges corners =
     (if length (faces @ edges @ corners) = 26 \<and> list_all (\<lambda>p. ptype p = FACE) faces \<and>
         list_all (\<lambda>p. ptype p = EDGE) edges \<and> list_all (\<lambda>p. ptype p = CORNER) corners
      then Inr (faces @ edges @ corners) else Inl AssertionError)"

text \<open>\<open>Cube.__init__\<close> from a sticker string.\<close>

definition Cube :: "string \<Rightarrow> error + cube" where
  "Cube s =
     (let cube_str = filter (\<lambda>x. x \<notin> set string_whitespace) s;
          st = (\<lambda>k. Some (cube_str ! k))
      in if length cube_str \<noteq> 54 then Inl AssertionError
         else
           bind_err (map_err (\<lambda>(p, cs). Piece p cs)
             [(RIGHT, [st 28, None, None]),
              (LEFT, [st 22, None, None]),
              (UP, [None, st 4, None]),
              (DOWN, [None, st 49, None]),
              (FRONT, [None, None, st 25]),
              (BACK, [None, None, st 31])]) (\<lambda>faces.
           bind_err (map_err (\<lambda>(p, cs). Piece p cs)
             [(point_add RIGHT UP, [st 16, st 5, None]),
              (point_add RIGHT DOWN, [st 40, st 50, None]),
              (point_add RIGHT FRONT, [st 27, None, st 26]),
              (point_add RIGHT BACK, [st 29, None, st 30]),
              (point_add LEFT UP, [st 10, st 3, None]),
              (point_add LEFT DOWN, [st 34, st 48, None]),
              (point_add LEFT FRONT, [st 23, None, st 24]),
              (point_add LEFT BACK, [st 21, None, st 32]),
              (point_add UP FRONT, [None, st 7, st 13]),
              (point_add UP BACK, [None, st 1, st 19]),
              (point_add DOWN FRONT, [None, st 46, st 37]),
              (point_add DOWN BACK, [None, st 52, st 43])]) (\<lambda>edges.
           bind_err (map_err (\<lambda>(p, cs). Piece p cs)
             [(point_add (point_add RIGHT UP) FRONT, [st 15, st 8, st 14]),
              (point_add (point_add RIGHT UP) BACK, [st 17, st 2, st 18]),
              (point_add (point_add RIGHT DOWN) FRONT, [st 39, st 47, st 38]),
              (point_add (point_add RIGHT DOWN) BACK, [st 41, st 53, st 42]),
              (point_add (point_add LEFT UP) FRONT, [st 11, st 6, st 12]),
              (point_add (point_add LEFT UP) BACK, [st 9, st 0, st 20]),
              (point_add (point_add LEFT DOWN) FRONT, [st 35, st 45, st 36]),
              (point_add (point_add LEFT DOWN) BACK, [st 33, st 51, st 44])]) (\<lambda>corners.
           assert_data faces edges corners))))"

text \<open>Reading a colour slot: \<open>piece.colors[k]\<close>.\<close>

definition color_at :: "nat \<Rightarrow> piece \<Rightarrow> error + char option" where
  "color_at k p = (if k < length (colors p) then Inr (colors p ! k) else Inl IndexError)"

text \<open>
  One line of \<open>Cube._color_list\<close>: the pieces of a face, sorted by a key (a pair of
  integers, compared lexicographically; Python's \<open>sorted\<close> is stable), and the colour
  each shows on that face.
\<close>

definition face_colors ::
  "cube \<Rightarrow> point \<Rightarrow> (piece \<Rightarrow> int \<times> int) \<Rightarrow> nat \<Rightarrow> error + char option list" where
  "face_colors c axis key k =
     bind_err (cube_face c axis) (\<lambda>refs.
       map_err (color_at k) (sort_key key (map (\<lambda>i. c ! i) refs)))"

text \<open>\<open>Cube._color_list\<close>.\<close>

definition color_list :: "cube \<Rightarrow> error + char option list" where
  "color_list c =
     bind_err (face_colors c RIGHT (\<lambda>p. (- py (pos p), - pz (pos p))) 0) (\<lambda>right.
     bind_err (face_colors c LEFT (\<lambda>p. (- py (pos p), pz (pos p))) 0) (\<lambda>left.
     bind_err (face_colors c UP (\<lambda>p. (pz (pos p), px (pos p))) 1) (\<lambda>up.
     bind_err (face_colors c DOWN (\<lambda>p. (- pz (pos p), px (pos p))) 1) (\<lambda>down.
     bind_err (face_colors c FRONT (\<lambda>p. (- py (pos p), px (pos p))) 2) (\<lambda>front.
     bind_err (face_colors c BACK (\<lambda>p. (- py (pos p), - px (pos p))) 2) (\<lambda>back.
       Inr (up @ take 3 left @ take 3 front @ take 3 right @ take 3 back @
            take 3 (drop 3 left) @ take 3 (drop 3 front) @ take 3 (drop 3 right) @
            take 3 (drop 3 back) @
            take 3 (drop 6 left) @ take 3 (drop 6 front) @ take 3 (drop 6 right) @
            take 3 (drop 6 back) @ down)))))))"

text \<open>\<open>Cube.__eq__\<close> between two cubes.\<close>

definition cube_eq :: "cube \<Rightarrow> cube \<Rightarrow> error + bool" where
  "cube_eq c other =
     bind_err (color_list c) (\<lambda>a. bind_err (color_list other) (\<lambda>b. Inr (a = b)))"

text \<open>
  The template of \<open>Cube.__str__\<close>: literal text and replacement fields \<open>{}\<close>.
  \<open>str.format\<close> fills the fields from the arguments in order, ignores arguments that
  are left over and raises \<open>IndexError\<close> when they run out; a colour that is
  \<open>None\<close> is printed as the word.
\<close>

datatype tmpl = Lit string | Field

definition template :: "tmpl list" where
  "template =
     (let nl = [Lit [CHR 0x0A]];
          row1 = [Lit ''    '', Field, Field, Field];
          row4 = [Field, Field, Field, Lit '' '', Field, Field, Field, Lit '' '',
                  Field, Field, Field, Lit '' '', Field, Field, Field]
      in row1 @ nl @ row1 @ nl @ row1 @ nl @ row4 @ nl @ row4 @ nl @ row4 @ nl @
         row1 @ nl @ row1 @ nl @ row1)"

fun format_str :: "tmpl list \<Rightarrow> string list \<Rightarrow> error + string" where
  "format_str [] args = Inr []"
| "format_str (Lit s # t) args = bind_err (format_str t args) (\<lambda>r. Inr (s @ r))"
| "format_str (Field # t) [] = Inl IndexError"
| "format_str (Field # t) (a # args) = bind_err (format_str t args) (\<lambda>r. Inr (a @ r))"

definition str_of_color :: "char option \<Rightarrow> string" where
  "str_of_color x = (case x of None \<Rightarrow> ''None'' | Some ch \<Rightarrow> [ch])"

text \<open>\<open>Cube.__str__\<close>.\<close>

definition cube_str :: "cube \<Rightarrow> error + string" where
  "cube_str c =
     bind_err (color_list c) (\<lambda>cl.
     bind_err (format_str template (map str_of_color cl)) (\<lambda>s.
       Inr (''    '' @ strip s)))"

text \<open>\<open>Cube.flat_str\<close>.\<close>

definition flat_str :: "cube \<Rightarrow> error + string" where
  "flat_str c = bind_err (cube_str c) (\<lambda>s. Inr (filter (\<lambda>x. x \<notin> set string_whitespace) s))"

section \<open>optimize.py\<close>

text \<open>The rotation tables are dictionaries with distinct keys; the counter-clockwise
  tables are the clockwise ones with keys and values exchanged.\<close>

definition X_ROT_CW :: "(string \<times> string) list" where
  "X_ROT_CW = [(''U'', ''F''), (''B'', ''U''), (''D'', ''B''), (''F'', ''D''),
               (''E'', ''Si''), (''S'', ''E''), (''Y'', ''Z''), (''Z'', ''Yi'')]"

definition Y_ROT_CW :: "(string \<times> string) list" where
  "Y_ROT_CW = [(''B'', ''L''), (''R'', ''B''), (''F'', ''R''), (''L'', ''F''),
               (''S'', ''Mi''), (''M'', ''S''), (''Z'', ''X''), (''X'', ''Zi'')]"

definition Z_ROT_CW :: "(string \<times> string) list" where
  "Z_ROT_CW = [(''U'', ''L''), (''R'', ''U''), (''D'', ''R''), (''L'', ''D''),
               (''E'', ''Mi''), (''M'', ''E''), (''Y'', ''Xi''), (''X'', ''Y'')]"

definition X_ROT_CC :: "(string \<times> string) list" where
  "X_ROT_CC = map (\<lambda>(k, v). (v, k)) X_ROT_CW"

definition Y_ROT_CC :: "(string \<times> string) list" where
  "Y_ROT_CC = map (\<lambda>(k, v). (v, k)) Y_ROT_CW"

definition Z_ROT_CC :: "(string \<times> string) list" where
  "Z_ROT_CC = map (\<lambda>(k, v). (v, k)) Z_ROT_CW"

definition get_rot_table :: "string \<Rightarrow> (string \<times> string) list option" where
  "get_rot_table rot =
     (if rot = ''X'' then Some X_ROT_CW
      else if rot = ''Xi'' then Some X_ROT_CC
      else if rot = ''Y'' then Some Y_ROT_CW
      else if rot = ''Yi'' then Some Y_ROT_CC
      else if rot = ''Z'' then Some Z_ROT_CW
      else if rot = ''Zi'' then Some Z_ROT_CC
      else None)"

text \<open>\<open>_invert\<close>: \<open>move[:1] if move.endswith('i') else move + 'i'\<close>.\<close>

definition invert :: "string \<Rightarrow> string" where
  "invert move = (if move \<noteq> [] \<and> last move = CHR ''i'' then take 1 move else move @ ''i'')"

text \<open>The body of the loop of \<open>_unrotate\<close>, for one move.\<close>

definition unrotate_move :: "(string \<times> string) list \<Rightarrow> string \<Rightarrow> string" where
  "unrotate_move rot_table move =
     (case map_of rot_table move of
        Some v \<Rightarrow> v
      | None \<Rightarrow> (case map_of rot_table (invert move) of
                   Some v \<Rightarrow> invert v
                 | None \<Rightarrow> move))"

text \<open>
  Python bounds the depth of nested calls (\<open>sys.getrecursionlimit()\<close>, 1000 unless it
  is changed), and a call that would exceed the bound raises \<open>RecursionError\<close>.  The
  three rules call themselves once per pass that changed the list, so the bound matters.
  Each function below that makes calls takes \<open>frames\<close>: the number of calls of Python
  functions that may still be nested at that point.  A call needs \<open>0 < frames\<close>, and the
  body of the callee runs with \<open>frames - 1\<close>.  Built-in operations (\<open>len\<close>,
  \<open>range\<close>, \<open>reversed\<close>, \<open>str.endswith\<close>, slicing, comparison) push no Python frame.
\<close>

text \<open>\<open>_unrotate\<close>, called with \<open>frames\<close> calls left: the call itself needs one frame
  and the call of \<open>get_rot_table\<close> in its first line a second one, which also serves the
  later calls of \<open>_invert\<close>.  For a name that is no cube rotation \<open>get_rot_table\<close>
  returns \<open>None\<close>, and the membership test of the first move raises \<open>TypeError\<close>.\<close>

definition unrotate :: "nat \<Rightarrow> string \<Rightarrow> string list \<Rightarrow> error + string list" where
  "unrotate frames rot moves =
     (if frames = 0 then Inl RecursionError
      else if frames - 1 = 0 then Inl RecursionError
      else case get_rot_table rot of
             None \<Rightarrow> (if moves = [] then Inr [] else Inl TypeError)
           | Some rot_table \<Rightarrow> Inr (map (unrotate_move rot_table) moves))"


text \<open>
  The \<open>while\<close> loop of \<open>apply_repeat_three_optimization\<close>, with \<open>frames\<close> calls left
  inside the body of that function.  The list is mutated in place:
  \<open>moves[i:i + 3] = [x]\<close> is \<open>take i moves @ [x] @ drop (i + 3) moves\<close>.  The loop
  condition \<open>i < len(moves) - 2\<close> is over Python integers.  \<open>_invert\<close> is called when
  three equal names are found.
\<close>

function repeat_three_loop ::
  "nat \<Rightarrow> string list \<Rightarrow> nat \<Rightarrow> bool \<Rightarrow> error + string list \<times> bool" where
  "repeat_three_loop frames moves i changed =
     (if i + 2 < length moves then
        (if moves ! i = moves ! (i + 1) \<and> moves ! (i + 1) = moves ! (i + 2)
         then (if frames = 0 then Inl RecursionError
               else repeat_three_loop frames
                      (take i moves @ [invert (moves ! i)] @ drop (i + 3) moves) i True)
         else repeat_three_loop frames moves (i + 1) changed)
      else Inr (moves, changed))"
  by pat_completeness auto
termination
  by (relation "measure (\<lambda>(frames, moves, i, changed). 2 * length moves - i)") auto

declare repeat_three_loop.simps [simp del]

text \<open>\<open>apply_repeat_three_optimization\<close>, called with \<open>frames\<close> calls left; the result
  is the list it leaves behind.  The call itself takes a frame, and so does the call of
  itself after a pass that changed the list.\<close>

function apply_repeat_three_optimization :: "nat \<Rightarrow> string list \<Rightarrow> error + string list" where
  "apply_repeat_three_optimization frames moves =
     (if frames = 0 then Inl RecursionError
      else case repeat_three_loop (frames - 1) moves 0 False of
             Inl e \<Rightarrow> Inl e
           | Inr (moves', changed) \<Rightarrow>
               if changed then apply_repeat_three_optimization (frames - 1) moves'
               else Inr moves')"
  by pat_completeness auto
termination
  by (relation "measure (\<lambda>(frames, moves). frames)") auto

declare apply_repeat_three_optimization.simps [simp del]

text \<open>The \<open>while\<close> loop of \<open>apply_do_undo_optimization\<close>; every iteration calls
  \<open>_invert\<close>.\<close>

function do_undo_loop ::
  "nat \<Rightarrow> string list \<Rightarrow> nat \<Rightarrow> bool \<Rightarrow> error + string list \<times> bool" where
  "do_undo_loop frames moves i changed =
     (if i + 1 < length moves then
        (if frames = 0 then Inl RecursionError
         else if invert (moves ! i) = moves ! (i + 1)
         then do_undo_loop frames (take i moves @ drop (i + 2) moves) i True
         else do_undo_loop frames moves (i + 1) changed)
      else Inr (moves, changed))"
  by pat_completeness auto
termination
  by (relation "measure (\<lambda>(frames, moves, i, changed). 2 * length moves - i)") auto

declare do_undo_loop.simps [simp del]

text \<open>\<open>apply_do_undo_optimization\<close>.\<close>

function apply_do_undo_optimization :: "nat \<Rightarrow> string list \<Rightarrow> error + string list" where
  "apply_do_undo_optimization frames moves =
     (if frames = 0 then Inl RecursionError
      else case do_undo_loop (frames - 1) moves 0 False of
             Inl e \<Rightarrow> Inl e
           | Inr (moves', changed) \<Rightarrow>
               if changed then apply_do_undo_optimization (frames - 1) moves'
               else Inr moves')"
  by pat_completeness auto
termination
  by (relation "measure (\<lambda>(frames, moves). frames)") auto

declare apply_do_undo_optimization.simps [simp del]

definition rots :: "string list" where
  "rots = [''X'', ''Y'', ''Z'', ''Xi'', ''Yi'', ''Zi'']"

text \<open>The \<open>for\<close> loop over \<open>reversed(range(i + 1, len(moves)))\<close>: the last position
  after \<open>i\<close> that holds the inverse of \<open>moves[i]\<close>.\<close>

definition find_inverse :: "string list \<Rightarrow> nat \<Rightarrow> nat option" where
  "find_inverse moves i =
     (case [j \<leftarrow> rev [i + 1..<length moves]. moves ! j = invert (moves ! i)] of
        [] \<Rightarrow> None
      | j # _ \<Rightarrow> Some j)"

lemma unrotate_length: "unrotate frames rot ms = Inr r \<Longrightarrow> length r = length ms"
  by (auto simp: unrotate_def split: option.splits if_splits)

lemma find_inverse_range: "find_inverse moves i = Some j \<Longrightarrow> i < j \<and> j < length moves"
proof -
  assume "find_inverse moves i = Some j"
  then obtain js where "[j \<leftarrow> rev [i + 1..<length moves]. moves ! j = invert (moves ! i)] = j # js"
    by (auto simp: find_inverse_def split: list.splits)
  then have "j \<in> set [j \<leftarrow> rev [i + 1..<length moves]. moves ! j = invert (moves ! i)]"
    by simp
  then show ?thesis by auto
qed

text \<open>
  The \<open>while\<close> loop of \<open>apply_no_full_cube_rotation_optimization\<close>:
  \<open>moves[i + 1:j]\<close> is \<open>take (j - (i + 1)) (drop (i + 1) moves)\<close>, and \<open>i\<close> is
  incremented also after a replacement.  Every comparison of the \<open>for\<close> loop calls
  \<open>_invert\<close>, so a rotation with a position after it needs a frame.
\<close>

function rotation_loop ::
  "nat \<Rightarrow> string list \<Rightarrow> nat \<Rightarrow> bool \<Rightarrow> error + string list \<times> bool" where
  "rotation_loop frames moves i changed =
     (if i < length moves then
        (if moves ! i \<notin> set rots then rotation_loop frames moves (i + 1) changed
         else if i + 1 < length moves \<and> frames = 0 then Inl RecursionError
         else case find_inverse moves i of
                None \<Rightarrow> rotation_loop frames moves (i + 1) changed
              | Some j \<Rightarrow>
                  (case unrotate frames (moves ! i) (take (j - (i + 1)) (drop (i + 1) moves)) of
                     Inl e \<Rightarrow> Inl e
                   | Inr inner \<Rightarrow>
                       rotation_loop frames (take i moves @ inner @ drop (j + 1) moves)
                         (i + 1) True))
      else Inr (moves, changed))"
  by pat_completeness auto
termination
  by (relation "measure (\<lambda>(frames, moves, i, changed). length moves - i)")
     (auto dest!: unrotate_length find_inverse_range)

declare rotation_loop.simps [simp del]

text \<open>\<open>apply_no_full_cube_rotation_optimization\<close>.\<close>

function apply_no_full_cube_rotation_optimization ::
  "nat \<Rightarrow> string list \<Rightarrow> error + string list" where
  "apply_no_full_cube_rotation_optimization frames moves =
     (if frames = 0 then Inl RecursionError
      else case rotation_loop (frames - 1) moves 0 False of
             Inl e \<Rightarrow> Inl e
           | Inr (moves', changed) \<Rightarrow>
               if changed then apply_no_full_cube_rotation_optimization (frames - 1) moves'
               else Inr moves')"
  by pat_completeness auto
termination
  by (relation "measure (\<lambda>(frames, moves). frames)") auto

declare apply_no_full_cube_rotation_optimization.simps [simp del]

text \<open>\<open>optimize_moves\<close>, with \<open>frames\<close> calls left inside its body: the three rules run
  once, in this order, on a copy.\<close>

definition optimize_moves :: "nat \<Rightarrow> string list \<Rightarrow> error + string list" where
  "optimize_moves frames moves =
     bind_err (apply_no_full_cube_rotation_optimization frames moves) (\<lambda>result.
       bind_err (apply_repeat_three_optimization frames result)
         (apply_do_undo_optimization frames))"



section \<open>solve_cube.py: the solved sticker string\<close>

definition SOLVED_CUBE_STR :: string where
  "SOLVED_CUBE_STR = ''OOOOOOOOOYYYWWWGGGBBBYYYWWWGGGBBBYYYWWWGGGBBBRRRRRRRRR''"

text \<open>\<open>" ".join(moves)\<close>.\<close>

fun join_space :: "string list \<Rightarrow> string" where
  "join_space [] = []"
| "join_space [m] = m"
| "join_space (m # ms) = m @ '' '' @ join_space ms"

section \<open>Well-formed pieces and cubes\<close>

text \<open>
  The invariant of the data model, as predicates that compute.  A piece is well formed
  when its position is a point of the lattice, it has three colour slots, a slot holds a
  colour exactly when the position is nonzero on that axis, and its kind is the one the
  constructor computes from the number of empty slots (so at least one slot is filled).
\<close>

definition piece_wf :: "piece \<Rightarrow> bool" where
  "piece_wf p =
     (list_all (\<lambda>x. x \<in> {-1, 0, 1}) (point_iter (pos p)) \<and>
      length (colors p) = 3 \<and>
      list_all (\<lambda>i. (colors p ! i \<noteq> None) = (point_iter (pos p) ! i \<noteq> 0)) [0, 1, 2] \<and>
      count_list (colors p) None < 3 \<and>
      ptype p = (if count_list (colors p) None = 2 then FACE
                 else if count_list (colors p) None = 1 then EDGE else CORNER))"

text \<open>A cube is well formed when it has 26 well-formed pieces at pairwise distinct
  positions: six faces, then twelve edges, then eight corners.\<close>

definition cube_wf :: "cube \<Rightarrow> bool" where
  "cube_wf c =
     (length c = 26 \<and> list_all piece_wf c \<and> distinct (map pos c) \<and>
      list_all (\<lambda>p. ptype p = FACE) (take 6 c) \<and>
      list_all (\<lambda>p. ptype p = EDGE) (take 12 (drop 6 c)) \<and>
      list_all (\<lambda>p. ptype p = CORNER) (drop 18 c))"

text \<open>The two colour slots in the plane of a canonical rotation.\<close>

definition plane_slots :: "matrix \<Rightarrow> nat \<times> nat" where
  "plane_slots m =
     (if m = ROT_XY_CW \<or> m = ROT_XY_CC then (0, 1)
      else if m = ROT_XZ_CW \<or> m = ROT_XZ_CC then (0, 2)
      else (1, 2))"

text \<open>The solved cube of \<open>solve_cube.py\<close>, as the constructor builds it.\<close>

definition solved_cube :: cube where
  "solved_cube = (case Cube SOLVED_CUBE_STR of Inr c \<Rightarrow> c | Inl e \<Rightarrow> [])"

section \<open>Predicates on move lists\<close>

text \<open>No three equal names in a row: nothing for the repeat-three rule to rewrite.\<close>

definition no_triple :: "string list \<Rightarrow> bool" where
  "no_triple ms =
     list_all (\<lambda>i. \<not> (ms ! i = ms ! (i + 1) \<and> ms ! (i + 1) = ms ! (i + 2))) [0..<length ms - 2]"

text \<open>No cube rotation with its inverse somewhere after it: nothing for the rotation rule
  to rewrite.\<close>

definition no_rotation_pair :: "string list \<Rightarrow> bool" where
  "no_rotation_pair ms =
     list_all (\<lambda>i. ms ! i \<notin> set rots \<or> find_inverse ms i = None) [0..<length ms]"

section \<open>A move as a map on single pieces\<close>

text \<open>
  A move selects pieces by their position and turns each selected piece on its own.
  \<open>move_piece sel m\<close> is what happens to one piece; \<open>piece_move name\<close> is this map
  for the move method of that name (face moves select by the sign of the dot product
  with the face's axis, slice moves by the zero coordinate, cube rotations select all).
  The lemmas below show that the move methods are these maps on every piece of the cube.
\<close>

definition move_piece :: "(point \<Rightarrow> bool) \<Rightarrow> matrix \<Rightarrow> piece \<Rightarrow> piece" where
  "move_piece sel m p = (if sel (pos p) then fst (piece_rotate m p) else p)"

definition piece_move_table :: "(string \<times> (piece \<Rightarrow> piece)) list" where
  "piece_move_table =
     [(''L'', move_piece (\<lambda>q. 0 < dot q LEFT) ROT_YZ_CC),
      (''Li'', move_piece (\<lambda>q. 0 < dot q LEFT) ROT_YZ_CW),
      (''R'', move_piece (\<lambda>q. 0 < dot q RIGHT) ROT_YZ_CW),
      (''Ri'', move_piece (\<lambda>q. 0 < dot q RIGHT) ROT_YZ_CC),
      (''U'', move_piece (\<lambda>q. 0 < dot q UP) ROT_XZ_CW),
      (''Ui'', move_piece (\<lambda>q. 0 < dot q UP) ROT_XZ_CC),
      (''D'', move_piece (\<lambda>q. 0 < dot q DOWN) ROT_XZ_CC),
      (''Di'', move_piece (\<lambda>q. 0 < dot q DOWN) ROT_XZ_CW),
      (''F'', move_piece (\<lambda>q. 0 < dot q FRONT) ROT_XY_CW),
      (''Fi'', move_piece (\<lambda>q. 0 < dot q FRONT) ROT_XY_CC),
      (''B'', move_piece (\<lambda>q. 0 < dot q BACK) ROT_XY_CC),
      (''Bi'', move_piece (\<lambda>q. 0 < dot q BACK) ROT_XY_CW),
      (''M'', move_piece (\<lambda>q. px q = 0) ROT_YZ_CC),
      (''Mi'', move_piece (\<lambda>q. px q = 0) ROT_YZ_CW),
      (''E'', move_piece (\<lambda>q. py q = 0) ROT_XZ_CC),
      (''Ei'', move_piece (\<lambda>q. py q = 0) ROT_XZ_CW),
      (''S'', move_piece (\<lambda>q. pz q = 0) ROT_XY_CW),
      (''Si'', move_piece (\<lambda>q. pz q = 0) ROT_XY_CC),
      (''X'', move_piece (\<lambda>q. True) ROT_YZ_CW),
      (''Xi'', move_piece (\<lambda>q. True) ROT_YZ_CC),
      (''Y'', move_piece (\<lambda>q. True) ROT_XZ_CW),
      (''Yi'', move_piece (\<lambda>q. True) ROT_XZ_CC),
      (''Z'', move_piece (\<lambda>q. True) ROT_XY_CW),
      (''Zi'', move_piece (\<lambda>q. True) ROT_XY_CC)]"

definition piece_move :: "string \<Rightarrow> piece \<Rightarrow> piece" where
  "piece_move name = (case map_of piece_move_table name of Some f \<Rightarrow> f | None \<Rightarrow> id)"

text \<open>Every piece has three colour slots: what the constructor of \<open>Piece\<close> asserts,
  and all that the moves need in order not to raise.\<close>

definition three_slots :: "cube \<Rightarrow> bool" where
  "three_slots c = list_all (\<lambda>p. length (colors p) = 3) c"

text \<open>Replaying a list of move names on a cube: \<open>cube.sequence(" ".join(moves))\<close>.\<close>

definition replay ::
  "(string \<Rightarrow> (cube \<Rightarrow> cube result) option) \<Rightarrow> cube \<Rightarrow> string list \<Rightarrow> cube result" where
  "replay other c moves = sequence other c (join_space moves)"

text \<open>The 26 points of the lattice other than the origin: where the pieces are.\<close>

definition lattice_points :: "point list" where
  "lattice_points =
     [Point x y z. x \<leftarrow> [-1, 0, 1], y \<leftarrow> [-1, 0, 1], z \<leftarrow> [-1, 0, 1], Point x y z \<noteq> Point 0 0 0]"

text \<open>The cube that the constructor builds from 54 stickers, \<open>f k\<close> being the sticker
  at index \<open>k\<close> of the string.\<close>

definition stickers_cube :: "(nat \<Rightarrow> char) \<Rightarrow> cube" where
  "stickers_cube f =
     [\<lparr>pos = Point 1 0 0, colors = [Some (f 28), None, None], ptype = FACE\<rparr>,
      \<lparr>pos = Point (-1) 0 0, colors = [Some (f 22), None, None], ptype = FACE\<rparr>,
      \<lparr>pos = Point 0 1 0, colors = [None, Some (f 4), None], ptype = FACE\<rparr>,
      \<lparr>pos = Point 0 (-1) 0, colors = [None, Some (f 49), None], ptype = FACE\<rparr>,
      \<lparr>pos = Point 0 0 1, colors = [None, None, Some (f 25)], ptype = FACE\<rparr>,
      \<lparr>pos = Point 0 0 (-1), colors = [None, None, Some (f 31)], ptype = FACE\<rparr>,
      \<lparr>pos = Point 1 1 0, colors = [Some (f 16), Some (f 5), None], ptype = EDGE\<rparr>,
      \<lparr>pos = Point 1 (-1) 0, colors = [Some (f 40), Some (f 50), None], ptype = EDGE\<rparr>,
      \<lparr>pos = Point 1 0 1, colors = [Some (f 27), None, Some (f 26)], ptype = EDGE\<rparr>,
      \<lparr>pos = Point 1 0 (-1), colors = [Some (f 29), None, Some (f 30)], ptype = EDGE\<rparr>,
      \<lparr>pos = Point (-1) 1 0, colors = [Some (f 10), Some (f 3), None], ptype = EDGE\<rparr>,
      \<lparr>pos = Point (-1) (-1) 0, colors = [Some (f 34), Some (f 48), None], ptype = EDGE\<rparr>,
      \<lparr>pos = Point (-1) 0 1, colors = [Some (f 23), None, Some (f 24)], ptype = EDGE\<rparr>,
      \<lparr>pos = Point (-1) 0 (-1), colors = [Some (f 21), None, Some (f 32)], ptype = EDGE\<rparr>,
      \<lparr>pos = Point 0 1 1, colors = [None, Some (f 7), Some (f 13)], ptype = EDGE\<rparr>,
      \<lparr>pos = Point 0 1 (-1), colors = [None, Some (f 1), Some (f 19)], ptype = EDGE\<rparr>,
      \<lparr>pos = Point 0 (-1) 1, colors = [None, Some (f 46), Some (f 37)], ptype = EDGE\<rparr>,
      \<lparr>pos = Point 0 (-1) (-1), colors = [None, Some (f 52), Some (f 43)], ptype = EDGE\<rparr>,
      \<lparr>pos = Point 1 1 1, colors = [Some (f 15), Some (f 8), Some (f 14)], ptype = CORNER\<rparr>,
      \<lparr>pos = Point 1 1 (-1), colors = [Some (f 17), Some (f 2), Some (f 18)], ptype = CORNER\<rparr>,
      \<lparr>pos = Point 1 (-1) 1, colors = [Some (f 39), Some (f 47), Some (f 38)], ptype = CORNER\<rparr>,
      \<lparr>pos = Point 1 (-1) (-1), colors = [Some (f 41), Some (f 53), Some (f 42)], ptype = CORNER\<rparr>,
      \<lparr>pos = Point (-1) 1 1, colors = [Some (f 11), Some (f 6), Some (f 12)], ptype = CORNER\<rparr>,
      \<lparr>pos = Point (-1) 1 (-1), colors = [Some (f 9), Some (f 0), Some (f 20)], ptype = CORNER\<rparr>,
      \<lparr>pos = Point (-1) (-1) 1, colors = [Some (f 35), Some (f 45), Some (f 36)], ptype = CORNER\<rparr>,
      \<lparr>pos = Point (-1) (-1) (-1), colors = [Some (f 33), Some (f 51), Some (f 44)], ptype = CORNER\<rparr>]"






section \<open>Piece.rotate on the six canonical rotations\<close>

lemmas geom_defs = dot_def point_sub_def point_add_def point_iter_def point_count_def
  nonzero_indices_def

lemmas axis_defs = RIGHT_def LEFT_def UP_def DOWN_def FRONT_def BACK_def X_AXIS_def Y_AXIS_def
  Z_AXIS_def

text \<open>
  For each canonical matrix \<open>piece_rotate\<close> never raises on a piece with three colour slots,
  whatever the integers of its position, and has a closed form: the new position, and the
  two slots exchanged unless the piece lies on the axis of the rotation.
\<close>

lemma rotate_XY_CW:
  "length (colors p) = 3 \<Longrightarrow>
   piece_rotate ROT_XY_CW p =
     (p\<lparr>pos := Point (py (pos p)) (- px (pos p)) (pz (pos p)),
        colors := (if px (pos p) = 0 \<and> py (pos p) = 0 then colors p
                   else (colors p)[0 := colors p ! 1, 1 := colors p ! 0])\<rparr>, None)"
  by (cases p, cases "pos p") (auto simp: piece_rotate_def ROT_XY_CW_def geom_defs Let_def)

lemma rotate_XY_CC:
  "length (colors p) = 3 \<Longrightarrow>
   piece_rotate ROT_XY_CC p =
     (p\<lparr>pos := Point (- py (pos p)) (px (pos p)) (pz (pos p)),
        colors := (if px (pos p) = 0 \<and> py (pos p) = 0 then colors p
                   else (colors p)[0 := colors p ! 1, 1 := colors p ! 0])\<rparr>, None)"
  by (cases p, cases "pos p") (auto simp: piece_rotate_def ROT_XY_CC_def geom_defs Let_def)

lemma rotate_XZ_CW:
  "length (colors p) = 3 \<Longrightarrow>
   piece_rotate ROT_XZ_CW p =
     (p\<lparr>pos := Point (- pz (pos p)) (py (pos p)) (px (pos p)),
        colors := (if px (pos p) = 0 \<and> pz (pos p) = 0 then colors p
                   else (colors p)[0 := colors p ! 2, 2 := colors p ! 0])\<rparr>, None)"
  by (cases p, cases "pos p") (auto simp: piece_rotate_def ROT_XZ_CW_def geom_defs Let_def)

lemma rotate_XZ_CC:
  "length (colors p) = 3 \<Longrightarrow>
   piece_rotate ROT_XZ_CC p =
     (p\<lparr>pos := Point (pz (pos p)) (py (pos p)) (- px (pos p)),
        colors := (if px (pos p) = 0 \<and> pz (pos p) = 0 then colors p
                   else (colors p)[0 := colors p ! 2, 2 := colors p ! 0])\<rparr>, None)"
  by (cases p, cases "pos p") (auto simp: piece_rotate_def ROT_XZ_CC_def geom_defs Let_def)

lemma rotate_YZ_CW:
  "length (colors p) = 3 \<Longrightarrow>
   piece_rotate ROT_YZ_CW p =
     (p\<lparr>pos := Point (px (pos p)) (pz (pos p)) (- py (pos p)),
        colors := (if py (pos p) = 0 \<and> pz (pos p) = 0 then colors p
                   else (colors p)[1 := colors p ! 2, 2 := colors p ! 1])\<rparr>, None)"
  by (cases p, cases "pos p") (auto simp: piece_rotate_def ROT_YZ_CW_def geom_defs Let_def)

lemma rotate_YZ_CC:
  "length (colors p) = 3 \<Longrightarrow>
   piece_rotate ROT_YZ_CC p =
     (p\<lparr>pos := Point (px (pos p)) (- pz (pos p)) (py (pos p)),
        colors := (if py (pos p) = 0 \<and> pz (pos p) = 0 then colors p
                   else (colors p)[1 := colors p ! 2, 2 := colors p ! 1])\<rparr>, None)"
  by (cases p, cases "pos p") (auto simp: piece_rotate_def ROT_YZ_CC_def geom_defs Let_def)

lemmas rotate_canonical = rotate_XY_CW rotate_XY_CC rotate_XZ_CW rotate_XZ_CC rotate_YZ_CW
  rotate_YZ_CC

lemma plane_slots_simps:
  "plane_slots ROT_XY_CW = (0, 1)" "plane_slots ROT_XY_CC = (0, 1)"
  "plane_slots ROT_XZ_CW = (0, 2)" "plane_slots ROT_XZ_CC = (0, 2)"
  "plane_slots ROT_YZ_CW = (1, 2)" "plane_slots ROT_YZ_CC = (1, 2)"
  by (simp_all add: plane_slots_def ROT_XY_CW_def ROT_XY_CC_def ROT_XZ_CW_def ROT_XZ_CC_def
      ROT_YZ_CW_def ROT_YZ_CC_def)

text \<open>
  Claim C3.  For a well-formed piece and a canonical rotation matrix, \<open>piece_rotate\<close>
  returns without exception, the new position is the matrix times the old one and the kind
  is untouched.  When the displacement is zero the colours are unchanged.  Otherwise the
  vector the code unpacks (the displacement, completed by the matrix times the displacement
  when it has a single nonzero entry) is nonzero exactly on the two axes of the rotation
  plane, and exactly these two colour slots are exchanged.
\<close>

theorem rotate_swaps_plane_slots:
  assumes "piece_wf p" and "m \<in> set canonical_rotations"
  shows "\<exists>p'. piece_rotate m p = (p', None) \<and> pos p' = mat_mul_point m (pos p) \<and> ptype p' = ptype p \<and>
     (let disp = point_sub (pos p') (pos p);
          rot2 = (if point_count disp 0 = 2 then point_add disp (mat_mul_point m disp) else disp)
      in if disp = Point 0 0 0 then colors p' = colors p
         else nonzero_indices rot2 = [fst (plane_slots m), snd (plane_slots m)] \<and>
              colors p' = (colors p)[fst (plane_slots m) := colors p ! snd (plane_slots m),
                                     snd (plane_slots m) := colors p ! fst (plane_slots m)])"
proof -
  from assms(1) have len: "length (colors p) = 3" by (simp add: piece_wf_def)
  from assms(2) consider "m = ROT_XY_CW" | "m = ROT_XY_CC" | "m = ROT_XZ_CW" | "m = ROT_XZ_CC"
    | "m = ROT_YZ_CW" | "m = ROT_YZ_CC"
    by (auto simp: canonical_rotations_def)
  then show ?thesis
  proof cases
    case 1
    show ?thesis unfolding 1 rotate_XY_CW[OF len] plane_slots_simps
      by (cases "pos p") (auto simp: ROT_XY_CW_def geom_defs Let_def)
  next
    case 2
    show ?thesis unfolding 2 rotate_XY_CC[OF len] plane_slots_simps
      by (cases "pos p") (auto simp: ROT_XY_CC_def geom_defs Let_def)
  next
    case 3
    show ?thesis unfolding 3 rotate_XZ_CW[OF len] plane_slots_simps
      by (cases "pos p") (auto simp: ROT_XZ_CW_def geom_defs Let_def)
  next
    case 4
    show ?thesis unfolding 4 rotate_XZ_CC[OF len] plane_slots_simps
      by (cases "pos p") (auto simp: ROT_XZ_CC_def geom_defs Let_def)
  next
    case 5
    show ?thesis unfolding 5 rotate_YZ_CW[OF len] plane_slots_simps
      by (cases "pos p") (auto simp: ROT_YZ_CW_def geom_defs Let_def)
  next
    case 6
    show ?thesis unfolding 6 rotate_YZ_CC[OF len] plane_slots_simps
      by (cases "pos p") (auto simp: ROT_YZ_CC_def geom_defs Let_def)
  qed
qed

text \<open>The witness is the degenerate case: the edge at \<open>(1, 1, 0)\<close> turned in the XY
  plane moves to \<open>(1, -1, 0)\<close>, a displacement with one nonzero entry.\<close>

theorem rotate_swaps_plane_slots_witness:
  "piece_wf \<lparr>pos = Point 1 1 0, colors = [Some CHR ''G'', Some CHR ''O'', None], ptype = EDGE\<rparr> \<and>
   ROT_XY_CW \<in> set canonical_rotations \<and>
   point_count (point_sub (Point 1 (-1) 0) (Point 1 1 0)) 0 = 2 \<and>
   piece_rotate ROT_XY_CW \<lparr>pos = Point 1 1 0, colors = [Some CHR ''G'', Some CHR ''O'', None], ptype = EDGE\<rparr>
     = (\<lparr>pos = Point 1 (-1) 0, colors = [Some CHR ''O'', Some CHR ''G'', None], ptype = EDGE\<rparr>, None)"
proof -
  let ?p = "\<lparr>pos = Point 1 1 0, colors = [Some CHR ''G'', Some CHR ''O'', None], ptype = EDGE\<rparr>"
  have wf: "piece_wf ?p" by (simp add: piece_wf_def point_iter_def)
  have m: "ROT_XY_CW \<in> set canonical_rotations" by (simp add: canonical_rotations_def)
  from rotate_swaps_plane_slots[OF wf m, unfolded plane_slots_simps] obtain p' where
    r: "piece_rotate ROT_XY_CW ?p = (p', None)" and
    p: "pos p' = mat_mul_point ROT_XY_CW (Point 1 1 0)" and
    t: "ptype p' = EDGE" and
    c: "colors p' = [Some CHR ''O'', Some CHR ''G'', None]"
    by (auto simp: Let_def ROT_XY_CW_def geom_defs split: if_splits)
  from p t c have "p' = \<lparr>pos = Point 1 (-1) 0, colors = [Some CHR ''O'', Some CHR ''G'', None], ptype = EDGE\<rparr>"
    by (cases p') (simp add: ROT_XY_CW_def dot_def)
  with r wf m show ?thesis by (simp add: point_count_def point_sub_def)
qed

section \<open>The moves as maps on the piece list\<close>

lemma canonical_no_raise:
  assumes "length (colors p) = 3" and "m \<in> set canonical_rotations"
  shows "snd (piece_rotate m p) = None \<and> length (colors (fst (piece_rotate m p))) = 3"
  using assms rotate_canonical[OF assms(1)]
  by (auto simp: canonical_rotations_def)

lemma rotate_pieces_refs:
  assumes "distinct refs" and "\<forall>i\<in>set refs. i < length c"
    and "\<forall>i\<in>set refs. snd (piece_rotate m (c ! i)) = None"
  shows "rotate_pieces c refs m =
     (map (\<lambda>i. if i \<in> set refs then fst (piece_rotate m (c ! i)) else c ! i) [0..<length c], None)"
  using assms
proof (induction refs arbitrary: c)
  case Nil
  then show ?case by (simp add: map_nth)
next
  case (Cons i refs)
  obtain p where p: "piece_rotate m (c ! i) = (p, None)"
    using Cons.prems(3) by (cases "piece_rotate m (c ! i)") auto
  let ?c = "c[i := p]"
  from Cons.prems have i: "i < length c" "i \<notin> set refs" by auto
  have eq: "\<forall>k\<in>set refs. ?c ! k = c ! k" using i by (auto simp: nth_list_update)
  have "rotate_pieces ?c refs m =
     (map (\<lambda>k. if k \<in> set refs then fst (piece_rotate m (?c ! k)) else ?c ! k) [0..<length ?c], None)"
    using Cons.prems eq by (intro Cons.IH) auto
  also have "map (\<lambda>k. if k \<in> set refs then fst (piece_rotate m (?c ! k)) else ?c ! k) [0..<length ?c]
     = map (\<lambda>k. if k \<in> set (i # refs) then fst (piece_rotate m (c ! k)) else c ! k) [0..<length c]"
    using i p eq by (auto simp: nth_list_update)
  finally show ?case using p by simp
qed

lemma rotate_pieces_filter:
  assumes "three_slots c" and "m \<in> set canonical_rotations"
  shows "rotate_pieces c [i \<leftarrow> [0..<length c]. sel (pos (c ! i))] m = (map (move_piece sel m) c, None)"
proof -
  let ?refs = "[i \<leftarrow> [0..<length c]. sel (pos (c ! i))]"
  have "rotate_pieces c ?refs m =
     (map (\<lambda>i. if i \<in> set ?refs then fst (piece_rotate m (c ! i)) else c ! i) [0..<length c], None)"
    using assms canonical_no_raise
    by (intro rotate_pieces_refs) (auto simp: three_slots_def list_all_iff)
  also have "map (\<lambda>i. if i \<in> set ?refs then fst (piece_rotate m (c ! i)) else c ! i) [0..<length c]
     = map (\<lambda>i. move_piece sel m (c ! i)) [0..<length c]"
    by (auto simp: move_piece_def)
  also have "\<dots> = map (move_piece sel m) (map (\<lambda>i. c ! i) [0..<length c])"
    by (simp only: map_map comp_def)
  also have "\<dots> = map (move_piece sel m) c"
    by (simp only: map_nth)
  finally show ?thesis .
qed


lemma rotate_face_map:
  assumes "three_slots c" and "m \<in> set canonical_rotations" and "point_count axis 0 = 2"
  shows "rotate_face c axis m = (map (move_piece (\<lambda>q. 0 < dot q axis) m) c, None)"
  using rotate_pieces_filter[OF assms(1,2), of "\<lambda>q. 0 < dot q axis"] assms(3)
  by (simp add: rotate_face_def cube_face_def)

lemma rotate_slice_map:
  assumes "three_slots c" and "m \<in> set canonical_rotations"
  shows "rotate_slice c (point_add Y_AXIS Z_AXIS) m = (map (move_piece (\<lambda>q. px q = 0) m) c, None)"
    and "rotate_slice c (point_add X_AXIS Z_AXIS) m = (map (move_piece (\<lambda>q. py q = 0) m) c, None)"
    and "rotate_slice c (point_add X_AXIS Y_AXIS) m = (map (move_piece (\<lambda>q. pz q = 0) m) c, None)"
  using rotate_pieces_filter[OF assms, of "\<lambda>q. px q = 0"]
    rotate_pieces_filter[OF assms, of "\<lambda>q. py q = 0"]
    rotate_pieces_filter[OF assms, of "\<lambda>q. pz q = 0"]
  by (simp_all add: rotate_slice_def cube_slice_def axis_defs geom_defs)

lemma rotate_all_map:
  assumes "three_slots c" and "m \<in> set canonical_rotations"
  shows "rotate_pieces c [0..<length c] m = (map (move_piece (\<lambda>q. True) m) c, None)"
  using rotate_pieces_filter[OF assms, of "\<lambda>q. True"] by simp

lemma canonical_members:
  "ROT_XY_CW \<in> set canonical_rotations" "ROT_XY_CC \<in> set canonical_rotations"
  "ROT_XZ_CW \<in> set canonical_rotations" "ROT_XZ_CC \<in> set canonical_rotations"
  "ROT_YZ_CW \<in> set canonical_rotations" "ROT_YZ_CC \<in> set canonical_rotations"
  by (simp_all add: canonical_rotations_def)

lemma axis_counts:
  "point_count LEFT 0 = 2" "point_count RIGHT 0 = 2" "point_count UP 0 = 2"
  "point_count DOWN 0 = 2" "point_count FRONT 0 = 2" "point_count BACK 0 = 2"
  by (simp_all add: point_count_def axis_defs)

lemma piece_move_names:
  "piece_move ''L'' = move_piece (\<lambda>q. 0 < dot q LEFT) ROT_YZ_CC"
  "piece_move ''Li'' = move_piece (\<lambda>q. 0 < dot q LEFT) ROT_YZ_CW"
  "piece_move ''R'' = move_piece (\<lambda>q. 0 < dot q RIGHT) ROT_YZ_CW"
  "piece_move ''Ri'' = move_piece (\<lambda>q. 0 < dot q RIGHT) ROT_YZ_CC"
  "piece_move ''U'' = move_piece (\<lambda>q. 0 < dot q UP) ROT_XZ_CW"
  "piece_move ''Ui'' = move_piece (\<lambda>q. 0 < dot q UP) ROT_XZ_CC"
  "piece_move ''D'' = move_piece (\<lambda>q. 0 < dot q DOWN) ROT_XZ_CC"
  "piece_move ''Di'' = move_piece (\<lambda>q. 0 < dot q DOWN) ROT_XZ_CW"
  "piece_move ''F'' = move_piece (\<lambda>q. 0 < dot q FRONT) ROT_XY_CW"
  "piece_move ''Fi'' = move_piece (\<lambda>q. 0 < dot q FRONT) ROT_XY_CC"
  "piece_move ''B'' = move_piece (\<lambda>q. 0 < dot q BACK) ROT_XY_CC"
  "piece_move ''Bi'' = move_piece (\<lambda>q. 0 < dot q BACK) ROT_XY_CW"
  "piece_move ''M'' = move_piece (\<lambda>q. px q = 0) ROT_YZ_CC"
  "piece_move ''Mi'' = move_piece (\<lambda>q. px q = 0) ROT_YZ_CW"
  "piece_move ''E'' = move_piece (\<lambda>q. py q = 0) ROT_XZ_CC"
  "piece_move ''Ei'' = move_piece (\<lambda>q. py q = 0) ROT_XZ_CW"
  "piece_move ''S'' = move_piece (\<lambda>q. pz q = 0) ROT_XY_CW"
  "piece_move ''Si'' = move_piece (\<lambda>q. pz q = 0) ROT_XY_CC"
  "piece_move ''X'' = move_piece (\<lambda>q. True) ROT_YZ_CW"
  "piece_move ''Xi'' = move_piece (\<lambda>q. True) ROT_YZ_CC"
  "piece_move ''Y'' = move_piece (\<lambda>q. True) ROT_XZ_CW"
  "piece_move ''Yi'' = move_piece (\<lambda>q. True) ROT_XZ_CC"
  "piece_move ''Z'' = move_piece (\<lambda>q. True) ROT_XY_CW"
  "piece_move ''Zi'' = move_piece (\<lambda>q. True) ROT_XY_CC"
  by (simp_all add: piece_move_def piece_move_table_def)

text \<open>On a cube whose pieces have three colour slots, each of the 24 move methods
  returns without exception, and its result is \<open>piece_move\<close> applied to every piece.\<close>

lemma move_maps:
  assumes "three_slots c"
  shows
    "L c = (map (piece_move ''L'') c, None)"
    "Li c = (map (piece_move ''Li'') c, None)"
    "R c = (map (piece_move ''R'') c, None)"
    "Ri c = (map (piece_move ''Ri'') c, None)"
    "U c = (map (piece_move ''U'') c, None)"
    "Ui c = (map (piece_move ''Ui'') c, None)"
    "D c = (map (piece_move ''D'') c, None)"
    "Di c = (map (piece_move ''Di'') c, None)"
    "F c = (map (piece_move ''F'') c, None)"
    "Fi c = (map (piece_move ''Fi'') c, None)"
    "B c = (map (piece_move ''B'') c, None)"
    "Bi c = (map (piece_move ''Bi'') c, None)"
    "M c = (map (piece_move ''M'') c, None)"
    "Mi c = (map (piece_move ''Mi'') c, None)"
    "E c = (map (piece_move ''E'') c, None)"
    "Ei c = (map (piece_move ''Ei'') c, None)"
    "S c = (map (piece_move ''S'') c, None)"
    "Si c = (map (piece_move ''Si'') c, None)"
    "X c = (map (piece_move ''X'') c, None)"
    "Xi c = (map (piece_move ''Xi'') c, None)"
    "Y c = (map (piece_move ''Y'') c, None)"
    "Yi c = (map (piece_move ''Yi'') c, None)"
    "Z c = (map (piece_move ''Z'') c, None)"
    "Zi c = (map (piece_move ''Zi'') c, None)"
  using assms
  by (simp_all add: piece_move_names L_def Li_def R_def Ri_def U_def Ui_def D_def Di_def F_def Fi_def B_def Bi_def M_def Mi_def E_def Ei_def S_def Si_def X_def Xi_def Y_def Yi_def Z_def Zi_def
      rotate_face_map rotate_slice_map rotate_all_map canonical_members axis_counts)

lemma move_table_map:
  assumes "(name, mv) \<in> set move_table" and "three_slots c"
  shows "mv c = (map (piece_move name) c, None)"
  using assms(1) move_maps[OF assms(2)]
  by (auto simp: move_table_def)

text \<open>The closed form of each move on one piece.\<close>

lemma piece_move_simps:
  "piece_move ''L'' \<lparr>pos = Point x y z, colors = [a, b, c], ptype = t\<rparr> =
       (if x < 0 then \<lparr>pos = Point (x) (- z) (y), colors = (if y = 0 \<and> z = 0 then [a, b, c] else [a, c, b]), ptype = t\<rparr>
        else \<lparr>pos = Point x y z, colors = [a, b, c], ptype = t\<rparr>)"
  "piece_move ''Li'' \<lparr>pos = Point x y z, colors = [a, b, c], ptype = t\<rparr> =
       (if x < 0 then \<lparr>pos = Point (x) (z) (- y), colors = (if y = 0 \<and> z = 0 then [a, b, c] else [a, c, b]), ptype = t\<rparr>
        else \<lparr>pos = Point x y z, colors = [a, b, c], ptype = t\<rparr>)"
  "piece_move ''R'' \<lparr>pos = Point x y z, colors = [a, b, c], ptype = t\<rparr> =
       (if 0 < x then \<lparr>pos = Point (x) (z) (- y), colors = (if y = 0 \<and> z = 0 then [a, b, c] else [a, c, b]), ptype = t\<rparr>
        else \<lparr>pos = Point x y z, colors = [a, b, c], ptype = t\<rparr>)"
  "piece_move ''Ri'' \<lparr>pos = Point x y z, colors = [a, b, c], ptype = t\<rparr> =
       (if 0 < x then \<lparr>pos = Point (x) (- z) (y), colors = (if y = 0 \<and> z = 0 then [a, b, c] else [a, c, b]), ptype = t\<rparr>
        else \<lparr>pos = Point x y z, colors = [a, b, c], ptype = t\<rparr>)"
  "piece_move ''U'' \<lparr>pos = Point x y z, colors = [a, b, c], ptype = t\<rparr> =
       (if 0 < y then \<lparr>pos = Point (- z) (y) (x), colors = (if x = 0 \<and> z = 0 then [a, b, c] else [c, b, a]), ptype = t\<rparr>
        else \<lparr>pos = Point x y z, colors = [a, b, c], ptype = t\<rparr>)"
  "piece_move ''Ui'' \<lparr>pos = Point x y z, colors = [a, b, c], ptype = t\<rparr> =
       (if 0 < y then \<lparr>pos = Point (z) (y) (- x), colors = (if x = 0 \<and> z = 0 then [a, b, c] else [c, b, a]), ptype = t\<rparr>
        else \<lparr>pos = Point x y z, colors = [a, b, c], ptype = t\<rparr>)"
  "piece_move ''D'' \<lparr>pos = Point x y z, colors = [a, b, c], ptype = t\<rparr> =
       (if y < 0 then \<lparr>pos = Point (z) (y) (- x), colors = (if x = 0 \<and> z = 0 then [a, b, c] else [c, b, a]), ptype = t\<rparr>
        else \<lparr>pos = Point x y z, colors = [a, b, c], ptype = t\<rparr>)"
  "piece_move ''Di'' \<lparr>pos = Point x y z, colors = [a, b, c], ptype = t\<rparr> =
       (if y < 0 then \<lparr>pos = Point (- z) (y) (x), colors = (if x = 0 \<and> z = 0 then [a, b, c] else [c, b, a]), ptype = t\<rparr>
        else \<lparr>pos = Point x y z, colors = [a, b, c], ptype = t\<rparr>)"
  "piece_move ''F'' \<lparr>pos = Point x y z, colors = [a, b, c], ptype = t\<rparr> =
       (if 0 < z then \<lparr>pos = Point (y) (- x) (z), colors = (if x = 0 \<and> y = 0 then [a, b, c] else [b, a, c]), ptype = t\<rparr>
        else \<lparr>pos = Point x y z, colors = [a, b, c], ptype = t\<rparr>)"
  "piece_move ''Fi'' \<lparr>pos = Point x y z, colors = [a, b, c], ptype = t\<rparr> =
       (if 0 < z then \<lparr>pos = Point (- y) (x) (z), colors = (if x = 0 \<and> y = 0 then [a, b, c] else [b, a, c]), ptype = t\<rparr>
        else \<lparr>pos = Point x y z, colors = [a, b, c], ptype = t\<rparr>)"
  "piece_move ''B'' \<lparr>pos = Point x y z, colors = [a, b, c], ptype = t\<rparr> =
       (if z < 0 then \<lparr>pos = Point (- y) (x) (z), colors = (if x = 0 \<and> y = 0 then [a, b, c] else [b, a, c]), ptype = t\<rparr>
        else \<lparr>pos = Point x y z, colors = [a, b, c], ptype = t\<rparr>)"
  "piece_move ''Bi'' \<lparr>pos = Point x y z, colors = [a, b, c], ptype = t\<rparr> =
       (if z < 0 then \<lparr>pos = Point (y) (- x) (z), colors = (if x = 0 \<and> y = 0 then [a, b, c] else [b, a, c]), ptype = t\<rparr>
        else \<lparr>pos = Point x y z, colors = [a, b, c], ptype = t\<rparr>)"
  "piece_move ''M'' \<lparr>pos = Point x y z, colors = [a, b, c], ptype = t\<rparr> =
       (if x = 0 then \<lparr>pos = Point (x) (- z) (y), colors = (if y = 0 \<and> z = 0 then [a, b, c] else [a, c, b]), ptype = t\<rparr>
        else \<lparr>pos = Point x y z, colors = [a, b, c], ptype = t\<rparr>)"
  "piece_move ''Mi'' \<lparr>pos = Point x y z, colors = [a, b, c], ptype = t\<rparr> =
       (if x = 0 then \<lparr>pos = Point (x) (z) (- y), colors = (if y = 0 \<and> z = 0 then [a, b, c] else [a, c, b]), ptype = t\<rparr>
        else \<lparr>pos = Point x y z, colors = [a, b, c], ptype = t\<rparr>)"
  "piece_move ''E'' \<lparr>pos = Point x y z, colors = [a, b, c], ptype = t\<rparr> =
       (if y = 0 then \<lparr>pos = Point (z) (y) (- x), colors = (if x = 0 \<and> z = 0 then [a, b, c] else [c, b, a]), ptype = t\<rparr>
        else \<lparr>pos = Point x y z, colors = [a, b, c], ptype = t\<rparr>)"
  "piece_move ''Ei'' \<lparr>pos = Point x y z, colors = [a, b, c], ptype = t\<rparr> =
       (if y = 0 then \<lparr>pos = Point (- z) (y) (x), colors = (if x = 0 \<and> z = 0 then [a, b, c] else [c, b, a]), ptype = t\<rparr>
        else \<lparr>pos = Point x y z, colors = [a, b, c], ptype = t\<rparr>)"
  "piece_move ''S'' \<lparr>pos = Point x y z, colors = [a, b, c], ptype = t\<rparr> =
       (if z = 0 then \<lparr>pos = Point (y) (- x) (z), colors = (if x = 0 \<and> y = 0 then [a, b, c] else [b, a, c]), ptype = t\<rparr>
        else \<lparr>pos = Point x y z, colors = [a, b, c], ptype = t\<rparr>)"
  "piece_move ''Si'' \<lparr>pos = Point x y z, colors = [a, b, c], ptype = t\<rparr> =
       (if z = 0 then \<lparr>pos = Point (- y) (x) (z), colors = (if x = 0 \<and> y = 0 then [a, b, c] else [b, a, c]), ptype = t\<rparr>
        else \<lparr>pos = Point x y z, colors = [a, b, c], ptype = t\<rparr>)"
  "piece_move ''X'' \<lparr>pos = Point x y z, colors = [a, b, c], ptype = t\<rparr> =
       \<lparr>pos = Point (x) (z) (- y), colors = (if y = 0 \<and> z = 0 then [a, b, c] else [a, c, b]), ptype = t\<rparr>"
  "piece_move ''Xi'' \<lparr>pos = Point x y z, colors = [a, b, c], ptype = t\<rparr> =
       \<lparr>pos = Point (x) (- z) (y), colors = (if y = 0 \<and> z = 0 then [a, b, c] else [a, c, b]), ptype = t\<rparr>"
  "piece_move ''Y'' \<lparr>pos = Point x y z, colors = [a, b, c], ptype = t\<rparr> =
       \<lparr>pos = Point (- z) (y) (x), colors = (if x = 0 \<and> z = 0 then [a, b, c] else [c, b, a]), ptype = t\<rparr>"
  "piece_move ''Yi'' \<lparr>pos = Point x y z, colors = [a, b, c], ptype = t\<rparr> =
       \<lparr>pos = Point (z) (y) (- x), colors = (if x = 0 \<and> z = 0 then [a, b, c] else [c, b, a]), ptype = t\<rparr>"
  "piece_move ''Z'' \<lparr>pos = Point x y z, colors = [a, b, c], ptype = t\<rparr> =
       \<lparr>pos = Point (y) (- x) (z), colors = (if x = 0 \<and> y = 0 then [a, b, c] else [b, a, c]), ptype = t\<rparr>"
  "piece_move ''Zi'' \<lparr>pos = Point x y z, colors = [a, b, c], ptype = t\<rparr> =
       \<lparr>pos = Point (- y) (x) (z), colors = (if x = 0 \<and> y = 0 then [a, b, c] else [b, a, c]), ptype = t\<rparr>"
  by (simp_all add: piece_move_names move_piece_def rotate_canonical dot_def axis_defs)

section \<open>Identities between the moves, on one piece\<close>

lemma invert_names:
  "invert ''L'' = ''Li''"
  "invert ''Li'' = ''L''"
  "invert ''R'' = ''Ri''"
  "invert ''Ri'' = ''R''"
  "invert ''U'' = ''Ui''"
  "invert ''Ui'' = ''U''"
  "invert ''D'' = ''Di''"
  "invert ''Di'' = ''D''"
  "invert ''F'' = ''Fi''"
  "invert ''Fi'' = ''F''"
  "invert ''B'' = ''Bi''"
  "invert ''Bi'' = ''B''"
  "invert ''M'' = ''Mi''"
  "invert ''Mi'' = ''M''"
  "invert ''E'' = ''Ei''"
  "invert ''Ei'' = ''E''"
  "invert ''S'' = ''Si''"
  "invert ''Si'' = ''S''"
  "invert ''X'' = ''Xi''"
  "invert ''Xi'' = ''X''"
  "invert ''Y'' = ''Yi''"
  "invert ''Yi'' = ''Y''"
  "invert ''Z'' = ''Zi''"
  "invert ''Zi'' = ''Z''"
  by (simp_all add: invert_def)

lemma piece_move_inverse_names:
  "piece_move ''Li'' (piece_move ''L'' \<lparr>pos = Point x y z, colors = [a, b, c], ptype = t\<rparr>) = \<lparr>pos = Point x y z, colors = [a, b, c], ptype = t\<rparr>"
  "piece_move ''L'' (piece_move ''Li'' \<lparr>pos = Point x y z, colors = [a, b, c], ptype = t\<rparr>) = \<lparr>pos = Point x y z, colors = [a, b, c], ptype = t\<rparr>"
  "piece_move ''Ri'' (piece_move ''R'' \<lparr>pos = Point x y z, colors = [a, b, c], ptype = t\<rparr>) = \<lparr>pos = Point x y z, colors = [a, b, c], ptype = t\<rparr>"
  "piece_move ''R'' (piece_move ''Ri'' \<lparr>pos = Point x y z, colors = [a, b, c], ptype = t\<rparr>) = \<lparr>pos = Point x y z, colors = [a, b, c], ptype = t\<rparr>"
  "piece_move ''Ui'' (piece_move ''U'' \<lparr>pos = Point x y z, colors = [a, b, c], ptype = t\<rparr>) = \<lparr>pos = Point x y z, colors = [a, b, c], ptype = t\<rparr>"
  "piece_move ''U'' (piece_move ''Ui'' \<lparr>pos = Point x y z, colors = [a, b, c], ptype = t\<rparr>) = \<lparr>pos = Point x y z, colors = [a, b, c], ptype = t\<rparr>"
  "piece_move ''Di'' (piece_move ''D'' \<lparr>pos = Point x y z, colors = [a, b, c], ptype = t\<rparr>) = \<lparr>pos = Point x y z, colors = [a, b, c], ptype = t\<rparr>"
  "piece_move ''D'' (piece_move ''Di'' \<lparr>pos = Point x y z, colors = [a, b, c], ptype = t\<rparr>) = \<lparr>pos = Point x y z, colors = [a, b, c], ptype = t\<rparr>"
  "piece_move ''Fi'' (piece_move ''F'' \<lparr>pos = Point x y z, colors = [a, b, c], ptype = t\<rparr>) = \<lparr>pos = Point x y z, colors = [a, b, c], ptype = t\<rparr>"
  "piece_move ''F'' (piece_move ''Fi'' \<lparr>pos = Point x y z, colors = [a, b, c], ptype = t\<rparr>) = \<lparr>pos = Point x y z, colors = [a, b, c], ptype = t\<rparr>"
  "piece_move ''Bi'' (piece_move ''B'' \<lparr>pos = Point x y z, colors = [a, b, c], ptype = t\<rparr>) = \<lparr>pos = Point x y z, colors = [a, b, c], ptype = t\<rparr>"
  "piece_move ''B'' (piece_move ''Bi'' \<lparr>pos = Point x y z, colors = [a, b, c], ptype = t\<rparr>) = \<lparr>pos = Point x y z, colors = [a, b, c], ptype = t\<rparr>"
  "piece_move ''Mi'' (piece_move ''M'' \<lparr>pos = Point x y z, colors = [a, b, c], ptype = t\<rparr>) = \<lparr>pos = Point x y z, colors = [a, b, c], ptype = t\<rparr>"
  "piece_move ''M'' (piece_move ''Mi'' \<lparr>pos = Point x y z, colors = [a, b, c], ptype = t\<rparr>) = \<lparr>pos = Point x y z, colors = [a, b, c], ptype = t\<rparr>"
  "piece_move ''Ei'' (piece_move ''E'' \<lparr>pos = Point x y z, colors = [a, b, c], ptype = t\<rparr>) = \<lparr>pos = Point x y z, colors = [a, b, c], ptype = t\<rparr>"
  "piece_move ''E'' (piece_move ''Ei'' \<lparr>pos = Point x y z, colors = [a, b, c], ptype = t\<rparr>) = \<lparr>pos = Point x y z, colors = [a, b, c], ptype = t\<rparr>"
  "piece_move ''Si'' (piece_move ''S'' \<lparr>pos = Point x y z, colors = [a, b, c], ptype = t\<rparr>) = \<lparr>pos = Point x y z, colors = [a, b, c], ptype = t\<rparr>"
  "piece_move ''S'' (piece_move ''Si'' \<lparr>pos = Point x y z, colors = [a, b, c], ptype = t\<rparr>) = \<lparr>pos = Point x y z, colors = [a, b, c], ptype = t\<rparr>"
  "piece_move ''Xi'' (piece_move ''X'' \<lparr>pos = Point x y z, colors = [a, b, c], ptype = t\<rparr>) = \<lparr>pos = Point x y z, colors = [a, b, c], ptype = t\<rparr>"
  "piece_move ''X'' (piece_move ''Xi'' \<lparr>pos = Point x y z, colors = [a, b, c], ptype = t\<rparr>) = \<lparr>pos = Point x y z, colors = [a, b, c], ptype = t\<rparr>"
  "piece_move ''Yi'' (piece_move ''Y'' \<lparr>pos = Point x y z, colors = [a, b, c], ptype = t\<rparr>) = \<lparr>pos = Point x y z, colors = [a, b, c], ptype = t\<rparr>"
  "piece_move ''Y'' (piece_move ''Yi'' \<lparr>pos = Point x y z, colors = [a, b, c], ptype = t\<rparr>) = \<lparr>pos = Point x y z, colors = [a, b, c], ptype = t\<rparr>"
  "piece_move ''Zi'' (piece_move ''Z'' \<lparr>pos = Point x y z, colors = [a, b, c], ptype = t\<rparr>) = \<lparr>pos = Point x y z, colors = [a, b, c], ptype = t\<rparr>"
  "piece_move ''Z'' (piece_move ''Zi'' \<lparr>pos = Point x y z, colors = [a, b, c], ptype = t\<rparr>) = \<lparr>pos = Point x y z, colors = [a, b, c], ptype = t\<rparr>"
  by (simp_all add: piece_move_simps)

lemma piece_move_three_names:
  "piece_move ''L'' (piece_move ''L'' (piece_move ''L'' \<lparr>pos = Point x y z, colors = [a, b, c], ptype = t\<rparr>)) = piece_move ''Li'' \<lparr>pos = Point x y z, colors = [a, b, c], ptype = t\<rparr>"
  "piece_move ''Li'' (piece_move ''Li'' (piece_move ''Li'' \<lparr>pos = Point x y z, colors = [a, b, c], ptype = t\<rparr>)) = piece_move ''L'' \<lparr>pos = Point x y z, colors = [a, b, c], ptype = t\<rparr>"
  "piece_move ''R'' (piece_move ''R'' (piece_move ''R'' \<lparr>pos = Point x y z, colors = [a, b, c], ptype = t\<rparr>)) = piece_move ''Ri'' \<lparr>pos = Point x y z, colors = [a, b, c], ptype = t\<rparr>"
  "piece_move ''Ri'' (piece_move ''Ri'' (piece_move ''Ri'' \<lparr>pos = Point x y z, colors = [a, b, c], ptype = t\<rparr>)) = piece_move ''R'' \<lparr>pos = Point x y z, colors = [a, b, c], ptype = t\<rparr>"
  "piece_move ''U'' (piece_move ''U'' (piece_move ''U'' \<lparr>pos = Point x y z, colors = [a, b, c], ptype = t\<rparr>)) = piece_move ''Ui'' \<lparr>pos = Point x y z, colors = [a, b, c], ptype = t\<rparr>"
  "piece_move ''Ui'' (piece_move ''Ui'' (piece_move ''Ui'' \<lparr>pos = Point x y z, colors = [a, b, c], ptype = t\<rparr>)) = piece_move ''U'' \<lparr>pos = Point x y z, colors = [a, b, c], ptype = t\<rparr>"
  "piece_move ''D'' (piece_move ''D'' (piece_move ''D'' \<lparr>pos = Point x y z, colors = [a, b, c], ptype = t\<rparr>)) = piece_move ''Di'' \<lparr>pos = Point x y z, colors = [a, b, c], ptype = t\<rparr>"
  "piece_move ''Di'' (piece_move ''Di'' (piece_move ''Di'' \<lparr>pos = Point x y z, colors = [a, b, c], ptype = t\<rparr>)) = piece_move ''D'' \<lparr>pos = Point x y z, colors = [a, b, c], ptype = t\<rparr>"
  "piece_move ''F'' (piece_move ''F'' (piece_move ''F'' \<lparr>pos = Point x y z, colors = [a, b, c], ptype = t\<rparr>)) = piece_move ''Fi'' \<lparr>pos = Point x y z, colors = [a, b, c], ptype = t\<rparr>"
  "piece_move ''Fi'' (piece_move ''Fi'' (piece_move ''Fi'' \<lparr>pos = Point x y z, colors = [a, b, c], ptype = t\<rparr>)) = piece_move ''F'' \<lparr>pos = Point x y z, colors = [a, b, c], ptype = t\<rparr>"
  "piece_move ''B'' (piece_move ''B'' (piece_move ''B'' \<lparr>pos = Point x y z, colors = [a, b, c], ptype = t\<rparr>)) = piece_move ''Bi'' \<lparr>pos = Point x y z, colors = [a, b, c], ptype = t\<rparr>"
  "piece_move ''Bi'' (piece_move ''Bi'' (piece_move ''Bi'' \<lparr>pos = Point x y z, colors = [a, b, c], ptype = t\<rparr>)) = piece_move ''B'' \<lparr>pos = Point x y z, colors = [a, b, c], ptype = t\<rparr>"
  "piece_move ''M'' (piece_move ''M'' (piece_move ''M'' \<lparr>pos = Point x y z, colors = [a, b, c], ptype = t\<rparr>)) = piece_move ''Mi'' \<lparr>pos = Point x y z, colors = [a, b, c], ptype = t\<rparr>"
  "piece_move ''Mi'' (piece_move ''Mi'' (piece_move ''Mi'' \<lparr>pos = Point x y z, colors = [a, b, c], ptype = t\<rparr>)) = piece_move ''M'' \<lparr>pos = Point x y z, colors = [a, b, c], ptype = t\<rparr>"
  "piece_move ''E'' (piece_move ''E'' (piece_move ''E'' \<lparr>pos = Point x y z, colors = [a, b, c], ptype = t\<rparr>)) = piece_move ''Ei'' \<lparr>pos = Point x y z, colors = [a, b, c], ptype = t\<rparr>"
  "piece_move ''Ei'' (piece_move ''Ei'' (piece_move ''Ei'' \<lparr>pos = Point x y z, colors = [a, b, c], ptype = t\<rparr>)) = piece_move ''E'' \<lparr>pos = Point x y z, colors = [a, b, c], ptype = t\<rparr>"
  "piece_move ''S'' (piece_move ''S'' (piece_move ''S'' \<lparr>pos = Point x y z, colors = [a, b, c], ptype = t\<rparr>)) = piece_move ''Si'' \<lparr>pos = Point x y z, colors = [a, b, c], ptype = t\<rparr>"
  "piece_move ''Si'' (piece_move ''Si'' (piece_move ''Si'' \<lparr>pos = Point x y z, colors = [a, b, c], ptype = t\<rparr>)) = piece_move ''S'' \<lparr>pos = Point x y z, colors = [a, b, c], ptype = t\<rparr>"
  "piece_move ''X'' (piece_move ''X'' (piece_move ''X'' \<lparr>pos = Point x y z, colors = [a, b, c], ptype = t\<rparr>)) = piece_move ''Xi'' \<lparr>pos = Point x y z, colors = [a, b, c], ptype = t\<rparr>"
  "piece_move ''Xi'' (piece_move ''Xi'' (piece_move ''Xi'' \<lparr>pos = Point x y z, colors = [a, b, c], ptype = t\<rparr>)) = piece_move ''X'' \<lparr>pos = Point x y z, colors = [a, b, c], ptype = t\<rparr>"
  "piece_move ''Y'' (piece_move ''Y'' (piece_move ''Y'' \<lparr>pos = Point x y z, colors = [a, b, c], ptype = t\<rparr>)) = piece_move ''Yi'' \<lparr>pos = Point x y z, colors = [a, b, c], ptype = t\<rparr>"
  "piece_move ''Yi'' (piece_move ''Yi'' (piece_move ''Yi'' \<lparr>pos = Point x y z, colors = [a, b, c], ptype = t\<rparr>)) = piece_move ''Y'' \<lparr>pos = Point x y z, colors = [a, b, c], ptype = t\<rparr>"
  "piece_move ''Z'' (piece_move ''Z'' (piece_move ''Z'' \<lparr>pos = Point x y z, colors = [a, b, c], ptype = t\<rparr>)) = piece_move ''Zi'' \<lparr>pos = Point x y z, colors = [a, b, c], ptype = t\<rparr>"
  "piece_move ''Zi'' (piece_move ''Zi'' (piece_move ''Zi'' \<lparr>pos = Point x y z, colors = [a, b, c], ptype = t\<rparr>)) = piece_move ''Z'' \<lparr>pos = Point x y z, colors = [a, b, c], ptype = t\<rparr>"
  by (simp_all add: piece_move_simps)













section \<open>Properties of every move, on one piece\<close>

lemma piece_form:
  assumes "length (colors p) = 3"
  obtains x y z a b c t where
    "p = \<lparr>pos = Point x y z, colors = [a, b, c], ptype = t\<rparr>"
proof -
  from assms obtain a b c where "colors p = [a, b, c]"
    by (auto simp: length_Suc_conv numeral_3_eq_3)
  then show ?thesis using that[of "px (pos p)" "py (pos p)" "pz (pos p)" a b c "ptype p"]
    by (cases p, cases "pos p") auto
qed

lemma move_names_cases:
  assumes "n \<in> set move_names"
  shows "n \<in> {''L'', ''Li'', ''R'', ''Ri'', ''U'', ''Ui'', ''D'', ''Di'', ''F'', ''Fi'', ''B'', ''Bi'',
     ''M'', ''Mi'', ''E'', ''Ei'', ''S'', ''Si'', ''X'', ''Xi'', ''Y'', ''Yi'', ''Z'', ''Zi''}"
  using assms by (simp add: move_names_def move_table_def)

lemma move_names_members:
  "''L'' \<in> set move_names" "''Li'' \<in> set move_names" "''R'' \<in> set move_names"
  "''Ri'' \<in> set move_names" "''U'' \<in> set move_names" "''Ui'' \<in> set move_names"
  "''D'' \<in> set move_names" "''Di'' \<in> set move_names" "''F'' \<in> set move_names"
  "''Fi'' \<in> set move_names" "''B'' \<in> set move_names" "''Bi'' \<in> set move_names"
  "''M'' \<in> set move_names" "''Mi'' \<in> set move_names" "''E'' \<in> set move_names"
  "''Ei'' \<in> set move_names" "''S'' \<in> set move_names" "''Si'' \<in> set move_names"
  "''X'' \<in> set move_names" "''Xi'' \<in> set move_names" "''Y'' \<in> set move_names"
  "''Yi'' \<in> set move_names" "''Z'' \<in> set move_names" "''Zi'' \<in> set move_names"
  by (simp_all add: move_names_def move_table_def)

lemma invert_valid:
  assumes "n \<in> set move_names"
  shows "invert n \<in> set move_names" and "invert (invert n) = n"
  using move_names_cases[OF assms]
  by (auto simp: invert_names move_names_members)

lemma piece_move_cases:
  assumes "n \<in> set move_names"
  shows "\<exists>sel m. m \<in> set canonical_rotations \<and> piece_move n = move_piece sel m"
  using move_names_cases[OF assms]
  by (elim insertE emptyE) (simp_all only: piece_move_names, (blast intro: canonical_members)+)

lemma piece_move_invalid: "n \<notin> set move_names \<Longrightarrow> piece_move n = id"
proof -
  assume "n \<notin> set move_names"
  then have "map_of piece_move_table n = None"
    by (simp add: move_names_def move_table_def piece_move_table_def)
  then show ?thesis by (simp add: piece_move_def)
qed

lemma piece_move_inverse:
  assumes "n \<in> set move_names" and "length (colors p) = 3"
  shows "piece_move (invert n) (piece_move n p) = p"
proof -
  from assms(2) obtain x y z a b c t where
    p: "p = \<lparr>pos = Point x y z, colors = [a, b, c], ptype = t\<rparr>" by (rule piece_form)
  from move_names_cases[OF assms(1)] show ?thesis unfolding p
    by (auto simp only: invert_names piece_move_inverse_names insert_iff empty_iff)
qed

lemma piece_move_three:
  assumes "n \<in> set move_names" and "length (colors p) = 3"
  shows "piece_move n (piece_move n (piece_move n p)) = piece_move (invert n) p"
proof -
  from assms(2) obtain x y z a b c t where
    p: "p = \<lparr>pos = Point x y z, colors = [a, b, c], ptype = t\<rparr>" by (rule piece_form)
  from move_names_cases[OF assms(1)] show ?thesis unfolding p
    by (auto simp only: invert_names piece_move_three_names insert_iff empty_iff)
qed

lemma pos_piece_rotate: "pos (fst (piece_rotate m p)) = mat_mul_point m (pos p)"
  by (auto simp: piece_rotate_def Let_def split: list.splits)

lemma ptype_piece_rotate: "ptype (fst (piece_rotate m p)) = ptype p"
  by (auto simp: piece_rotate_def Let_def split: list.splits)

lemma piece_wf_form:
  "piece_wf \<lparr>pos = Point x y z, colors = [a, b, c], ptype = t\<rparr> =
     (x \<in> {-1, 0, 1} \<and> y \<in> {-1, 0, 1} \<and> z \<in> {-1, 0, 1} \<and>
      (a \<noteq> None) = (x \<noteq> 0) \<and> (b \<noteq> None) = (y \<noteq> 0) \<and> (c \<noteq> None) = (z \<noteq> 0) \<and>
      count_list [a, b, c] None < 3 \<and>
      t = (if count_list [a, b, c] None = 2 then FACE
           else if count_list [a, b, c] None = 1 then EDGE else CORNER))"
  by (simp add: piece_wf_def point_iter_def)

lemma neg_lattice: "(- x \<in> {-1, 0, 1::int}) = (x \<in> {-1, 0, 1})" "0 \<in> {-1, 0, 1::int}"
  by auto

lemma count_list3:
  "count_list [b, a, c] x = count_list [a, b, c] x"
  "count_list [c, b, a] x = count_list [a, b, c] x"
  "count_list [a, c, b] x = count_list [a, b, c] x"
  by simp_all

lemma piece_wf_rotate:
  assumes "piece_wf p" and "m \<in> set canonical_rotations"
  shows "piece_wf (fst (piece_rotate m p))"
proof -
  from assms(1) have len: "length (colors p) = 3" by (simp add: piece_wf_def)
  then obtain x y z a b c t where
    p: "p = \<lparr>pos = Point x y z, colors = [a, b, c], ptype = t\<rparr>" by (rule piece_form)
  from assms(2) consider "m = ROT_XY_CW" | "m = ROT_XY_CC" | "m = ROT_XZ_CW" | "m = ROT_XZ_CC"
    | "m = ROT_YZ_CW" | "m = ROT_YZ_CC"
    by (auto simp: canonical_rotations_def)
  then show ?thesis
  proof cases
    case 1 with assms(1) show ?thesis unfolding p
      by (simp add: rotate_XY_CW piece_wf_form neg_lattice count_list3 del: count_list.simps insert_iff)
  next
    case 2 with assms(1) show ?thesis unfolding p
      by (simp add: rotate_XY_CC piece_wf_form neg_lattice count_list3 del: count_list.simps insert_iff)
  next
    case 3 with assms(1) show ?thesis unfolding p
      by (simp add: rotate_XZ_CW piece_wf_form neg_lattice count_list3 del: count_list.simps insert_iff)
  next
    case 4 with assms(1) show ?thesis unfolding p
      by (simp add: rotate_XZ_CC piece_wf_form neg_lattice count_list3 del: count_list.simps insert_iff)
  next
    case 5 with assms(1) show ?thesis unfolding p
      by (simp add: rotate_YZ_CW piece_wf_form neg_lattice count_list3 del: count_list.simps insert_iff)
  next
    case 6 with assms(1) show ?thesis unfolding p
      by (simp add: rotate_YZ_CC piece_wf_form neg_lattice count_list3 del: count_list.simps insert_iff)
  qed
qed

section \<open>The moves preserve the invariant of the cube\<close>

lemma pos_move_piece:
  "pos (move_piece sel m p) = (if sel (pos p) then mat_mul_point m (pos p) else pos p)"
  by (simp add: move_piece_def pos_piece_rotate)

lemma pos_piece_move_cong:
  assumes "pos p = pos q"
  shows "pos (piece_move n p) = pos (piece_move n q)"
proof (cases "n \<in> set move_names")
  case True
  from piece_move_cases[OF True] obtain sel m where "piece_move n = move_piece sel m" by blast
  with assms show ?thesis by (simp add: pos_move_piece)
next
  case False
  with assms show ?thesis by (simp add: piece_move_invalid)
qed

lemma piece_move_pos_inj:
  assumes "n \<in> set move_names" and "length (colors p) = 3" and "length (colors q) = 3"
    and "pos (piece_move n p) = pos (piece_move n q)"
  shows "pos p = pos q"
proof -
  have "pos (piece_move (invert n) (piece_move n p)) = pos (piece_move (invert n) (piece_move n q))"
    using assms(4) by (rule pos_piece_move_cong)
  then show ?thesis by (simp add: piece_move_inverse assms)
qed

lemma piece_wf_move:
  assumes "piece_wf p"
  shows "piece_wf (piece_move n p)" and "ptype (piece_move n p) = ptype p"
proof -
  show "piece_wf (piece_move n p)"
  proof (cases "n \<in> set move_names")
    case True
    from piece_move_cases[OF True] obtain sel m where
      "m \<in> set canonical_rotations" "piece_move n = move_piece sel m" by blast
    with assms show ?thesis by (simp add: move_piece_def piece_wf_rotate)
  next
    case False
    with assms show ?thesis by (simp add: piece_move_invalid)
  qed
  show "ptype (piece_move n p) = ptype p"
  proof (cases "n \<in> set move_names")
    case True
    from piece_move_cases[OF True] obtain sel m where "piece_move n = move_piece sel m" by blast
    then show ?thesis by (simp add: move_piece_def ptype_piece_rotate)
  next
    case False
    then show ?thesis by (simp add: piece_move_invalid)
  qed
qed

lemma cube_wf_three_slots: "cube_wf c \<Longrightarrow> three_slots c"
  by (auto simp: cube_wf_def three_slots_def piece_wf_def list_all_iff)

lemma list_all_kind_map:
  assumes "\<forall>p\<in>set xs. ptype (g p) = ptype p"
  shows "list_all (\<lambda>p. ptype p = k) (map g xs) = list_all (\<lambda>p. ptype p = k) xs"
  using assms by (auto simp: list_all_iff)

lemma cube_wf_map_move:
  assumes "cube_wf c" and "n \<in> set move_names"
  shows "cube_wf (map (piece_move n) c)" and "map ptype (map (piece_move n) c) = map ptype c"
proof -
  have wf: "\<forall>p\<in>set c. piece_wf p" using assms(1) by (simp add: cube_wf_def list_all_iff)
  then have ty: "\<forall>p\<in>set c. ptype (piece_move n p) = ptype p" by (simp add: piece_wf_move)
  have sub: "set (take 6 c) \<subseteq> set c" "set (take 12 (drop 6 c)) \<subseteq> set c" "set (drop 18 c) \<subseteq> set c"
    by (auto dest: in_set_takeD in_set_dropD)
  have kinds:
    "list_all (\<lambda>p. ptype p = FACE) (take 6 (map (piece_move n) c))"
    "list_all (\<lambda>p. ptype p = EDGE) (take 12 (drop 6 (map (piece_move n) c)))"
    "list_all (\<lambda>p. ptype p = CORNER) (drop 18 (map (piece_move n) c))"
    using assms(1) ty sub
    by (auto simp: cube_wf_def take_map drop_map list_all_iff)
  have "inj_on (\<lambda>p. pos (piece_move n p)) (set c)"
  proof (rule inj_onI)
    fix p q assume pq: "p \<in> set c" "q \<in> set c" "pos (piece_move n p) = pos (piece_move n q)"
    with wf have len: "length (colors p) = 3" "length (colors q) = 3"
      by (auto simp: piece_wf_def)
    from piece_move_pos_inj[OF assms(2) len pq(3)] have "pos p = pos q" .
    moreover from assms(1) have "inj_on pos (set c)" by (simp add: cube_wf_def distinct_map)
    ultimately show "p = q" using pq(1,2) by (auto dest: inj_onD)
  qed
  moreover from assms(1) have "distinct c" by (auto simp: cube_wf_def distinct_map)
  ultimately have "distinct (map pos (map (piece_move n) c))"
    by (simp add: distinct_map comp_def)
  moreover have "list_all piece_wf (map (piece_move n) c)"
    using wf by (auto simp: list_all_iff piece_wf_move)
  ultimately show "cube_wf (map (piece_move n) c)"
    using assms(1) kinds by (simp add: cube_wf_def)
  show "map ptype (map (piece_move n) c) = map ptype c" using ty by simp
qed

lemma move_table_names: "(name, mv) \<in> set move_table \<Longrightarrow> name \<in> set move_names"
  by (force simp: move_names_def)

text \<open>
  Claim C4.  On a well-formed cube each of the 24 move methods returns without exception
  and leaves a well-formed cube: 26 pieces, each on a nonzero lattice point with colours
  exactly on the nonzero axes, at pairwise distinct positions, and every piece keeps its
  kind.
\<close>

theorem moves_preserve_cube_wf:
  assumes "cube_wf c" and "(name, mv) \<in> set move_table"
  shows "\<exists>c'. mv c = (c', None) \<and> cube_wf c' \<and> map ptype c' = map ptype c"
  using move_table_map[OF assms(2) cube_wf_three_slots[OF assms(1)]]
    cube_wf_map_move[OF assms(1) move_table_names[OF assms(2)]]
  by simp

lemma solved_cube_wf: "cube_wf solved_cube"
  by code_simp

theorem moves_preserve_cube_wf_witness:
  "cube_wf solved_cube \<and> (''R'', R) \<in> set move_table \<and>
   (\<exists>c'. R solved_cube = (c', None) \<and> cube_wf c' \<and> map ptype c' = map ptype solved_cube)"
proof -
  have b: "(''R'', R) \<in> set move_table" by (simp add: move_table_def)
  from moves_preserve_cube_wf[OF solved_cube_wf b] solved_cube_wf b show ?thesis by simp
qed

section \<open>Replaying move names\<close>

lemma move_name_chars:
  assumes "n \<in> set move_names"
  shows "n \<noteq> []" and "\<forall>ch\<in>set n. \<not> isspace ch"
  using move_names_cases[OF assms] by (auto simp: isspace_def)

lemma split_from_word:
  "\<forall>ch\<in>set w. \<not> isspace ch \<Longrightarrow> split_from cur (w @ rest) = split_from (cur @ w) rest"
  by (induction w arbitrary: cur) auto

lemma split_join_space:
  "\<forall>m\<in>set ms. m \<noteq> [] \<and> (\<forall>ch\<in>set m. \<not> isspace ch) \<Longrightarrow> split (join_space ms) = ms"
proof (induction ms rule: join_space.induct)
  case 1
  then show ?case by (simp add: split_def)
next
  case (2 m)
  then show ?case using split_from_word[of m "[]" "[]"] by (simp add: split_def)
next
  case (3 m m' ms)
  have sp: "isspace CHR '' ''" by (simp add: isspace_def)
  from 3 have "split (join_space (m # m' # ms)) = split_from m ('' '' @ join_space (m' # ms))"
    using split_from_word[of m "[]"] by (simp add: split_def)
  also have "\<dots> = m # split (join_space (m' # ms))"
    using 3 sp by (simp add: split_def)
  finally show ?case using 3 by simp
qed

lemma three_slots_map_move:
  assumes "three_slots c"
  shows "three_slots (map (piece_move n) c)"
proof (cases "n \<in> set move_names")
  case True
  from piece_move_cases[OF True] obtain sel m where
    "m \<in> set canonical_rotations" "piece_move n = move_piece sel m" by blast
  with assms show ?thesis
    by (auto simp: three_slots_def list_all_iff move_piece_def canonical_no_raise)
next
  case False
  with assms show ?thesis by (simp add: piece_move_invalid)
qed

lemma call_all_moves:
  assumes "set ms \<subseteq> set move_names" and "three_slots c"
  shows "\<exists>fs. map_err (getattr other) ms = Inr fs \<and>
           call_all c fs = (map (fold piece_move ms) c, None)"
  using assms
proof (induction ms arbitrary: c)
  case Nil
  then show ?case by simp
next
  case (Cons n ms)
  from Cons.prems(1) have "n \<in> fst ` set move_table" by (simp add: move_names_def)
  then obtain mv where mv: "map_of move_table n = Some mv"
    by (metis domD dom_map_of_conv_image_fst)
  then have tab: "(n, mv) \<in> set move_table" by (rule map_of_SomeD)
  from move_table_map[OF tab Cons.prems(2)] have step: "mv c = (map (piece_move n) c, None)" .
  from Cons.IH[OF _ three_slots_map_move[OF Cons.prems(2)], of n] Cons.prems(1)
  obtain fs where fs: "map_err (getattr other) ms = Inr fs"
    "call_all (map (piece_move n) c) fs = (map (fold piece_move ms) (map (piece_move n) c), None)"
    by auto
  have "map_err (getattr other) (n # ms) = Inr (mv # fs)"
    using mv fs(1) by (simp add: getattr_def)
  moreover have "call_all c (mv # fs) = (map (fold piece_move (n # ms)) c, None)"
    using step fs(2) by simp
  ultimately show ?case by blast
qed

lemma replay_moves:
  assumes "set ms \<subseteq> set move_names" and "three_slots c"
  shows "replay other c ms = (map (fold piece_move ms) c, None)"
proof -
  have "split (join_space ms) = ms"
    using assms(1) move_name_chars by (intro split_join_space) blast
  moreover from call_all_moves[OF assms] obtain fs where
    "map_err (getattr other) ms = Inr fs" "call_all c fs = (map (fold piece_move ms) c, None)"
    by blast
  ultimately show ?thesis by (simp add: replay_def sequence_def)
qed

section \<open>The net-order colour list is defined on every cube the constructor can build\<close>

lemma map_err_color_at:
  assumes "\<forall>p\<in>set xs. length (colors p) = 3" and "k < 3"
  shows "map_err (color_at k) xs = Inr (map (\<lambda>p. colors p ! k) xs)"
  using assms by (induction xs) (auto simp: color_at_def)

lemma face_colors_total:
  assumes "three_slots c" and "point_count axis 0 = 2" and "k < 3"
  shows "\<exists>l. face_colors c axis key k = Inr l"
proof -
  let ?refs = "[i \<leftarrow> [0..<length c]. 0 < dot (pos (c ! i)) axis]"
  have "\<forall>p\<in>set (sort_key key (map (\<lambda>i. c ! i) ?refs)). length (colors p) = 3"
    using assms(1) by (auto simp: three_slots_def list_all_iff)
  from map_err_color_at[OF this assms(3)] assms(2) show ?thesis
    by (simp add: face_colors_def cube_face_def)
qed

lemma color_list_total:
  assumes "three_slots c"
  shows "\<exists>l. color_list c = Inr l"
proof -
  note t = face_colors_total[OF assms]
  obtain r where r: "face_colors c RIGHT (\<lambda>p. (- py (pos p), - pz (pos p))) 0 = Inr r"
    using t[of RIGHT 0] by (auto simp: axis_counts)
  obtain l where l: "face_colors c LEFT (\<lambda>p. (- py (pos p), pz (pos p))) 0 = Inr l"
    using t[of LEFT 0] by (auto simp: axis_counts)
  obtain u where u: "face_colors c UP (\<lambda>p. (pz (pos p), px (pos p))) 1 = Inr u"
    using t[of UP 1] by (auto simp: axis_counts)
  obtain d where d: "face_colors c DOWN (\<lambda>p. (- pz (pos p), px (pos p))) 1 = Inr d"
    using t[of DOWN 1] by (auto simp: axis_counts)
  obtain f where f: "face_colors c FRONT (\<lambda>p. (- py (pos p), px (pos p))) 2 = Inr f"
    using t[of FRONT 2] by (auto simp: axis_counts)
  obtain b where b: "face_colors c BACK (\<lambda>p. (- py (pos p), - px (pos p))) 2 = Inr b"
    using t[of BACK 2] by (auto simp: axis_counts)
  show ?thesis unfolding color_list_def r l u d f b by simp
qed

lemma cube_eq_refl: "three_slots c \<Longrightarrow> cube_eq c c = Inr True"
  using color_list_total[of c] by (auto simp: cube_eq_def)

section \<open>Inverse moves and fourfold repetition\<close>

text \<open>
  Claim C5.  For each of the 24 move names, its inverse name (the name with the suffix
  \<open>i\<close> added or removed) is again a move name, and applying the move and then its
  inverse to a well-formed cube (every reachable cube is well formed) raises nothing and
  leaves a cube equal to the original one by \<open>Cube.__eq__\<close>, that is, by the
  net-order colour list.
\<close>

theorem move_then_inverse_restores:
  assumes "cube_wf c" and "n \<in> set move_names"
  shows "invert n \<in> set move_names \<and>
         (\<exists>c'. sequence other c (n @ '' '' @ invert n) = (c', None) \<and> cube_eq c' c = Inr True)"
proof -
  have ts: "three_slots c" using assms(1) by (rule cube_wf_three_slots)
  have valid: "set [n, invert n] \<subseteq> set move_names" using assms(2) invert_valid(1) by simp
  have "map (fold piece_move [n, invert n]) c = map id c"
    using ts assms(2) by (intro map_cong) (auto simp: three_slots_def list_all_iff piece_move_inverse)
  with replay_moves[OF valid ts, of other]
  have "sequence other c (n @ '' '' @ invert n) = (c, None)" by (simp add: replay_def)
  with cube_eq_refl[OF ts] invert_valid(1)[OF assms(2)] show ?thesis by simp
qed

theorem move_then_inverse_restores_witness:
  "cube_wf solved_cube \<and> ''F'' \<in> set move_names \<and> ''Fi'' \<in> set move_names \<and>
   (\<exists>c'. sequence (\<lambda>name. None) solved_cube ''F Fi'' = (c', None) \<and>
         cube_eq c' solved_cube = Inr True)"
proof -
  have n: "''F'' \<in> set move_names" by (rule move_names_members)
  from move_then_inverse_restores[OF solved_cube_wf n, of "\<lambda>name. None"] solved_cube_wf n
  show ?thesis by (simp add: invert_names)
qed

text \<open>
  Claim C6.  Applying any one of the 24 moves four times in succession to a well-formed
  cube raises nothing and leaves a cube equal to the original one by the net-order colour
  list.
\<close>

theorem move_four_times_restores:
  assumes "cube_wf c" and "n \<in> set move_names"
  shows "\<exists>c'. sequence other c (n @ '' '' @ n @ '' '' @ n @ '' '' @ n) = (c', None) \<and>
              cube_eq c' c = Inr True"
proof -
  have ts: "three_slots c" using assms(1) by (rule cube_wf_three_slots)
  have valid: "set [n, n, n, n] \<subseteq> set move_names" using assms(2) by simp
  have four: "piece_move n (piece_move n (piece_move n (piece_move n p))) = p"
    if "length (colors p) = 3" for p
  proof -
    from piece_move_cases[OF assms(2)] obtain sel m where
      m: "m \<in> set canonical_rotations" "piece_move n = move_piece sel m" by blast
    have len: "length (colors (piece_move n p)) = 3"
      using that m by (simp add: move_piece_def canonical_no_raise)
    have "piece_move n (piece_move n (piece_move n (piece_move n p)))
            = piece_move (invert n) (piece_move n p)"
      by (rule piece_move_three[OF assms(2) len])
    then show ?thesis by (simp add: piece_move_inverse[OF assms(2) that])
  qed
  have "map (fold piece_move [n, n, n, n]) c = map id c"
    using ts by (intro map_cong) (auto simp: three_slots_def list_all_iff four)
  with replay_moves[OF valid ts, of other]
  have "sequence other c (n @ '' '' @ n @ '' '' @ n @ '' '' @ n) = (c, None)"
    by (simp add: replay_def)
  with cube_eq_refl[OF ts] show ?thesis by simp
qed

theorem move_four_times_restores_witness:
  "cube_wf solved_cube \<and> ''U'' \<in> set move_names \<and>
   (\<exists>c'. sequence (\<lambda>name. None) solved_cube ''U U U U'' = (c', None) \<and>
         cube_eq c' solved_cube = Inr True)"
proof -
  have n: "''U'' \<in> set move_names" by (rule move_names_members)
  from move_four_times_restores[OF solved_cube_wf n, of "\<lambda>name. None"] solved_cube_wf n
  show ?thesis by simp
qed

section \<open>Faces and slices\<close>

lemma lattice_points_eq:
  "lattice_points =
     [Point (-1) (-1) (-1), Point (-1) (-1) 0, Point (-1) (-1) 1,
      Point (-1) 0 (-1), Point (-1) 0 0, Point (-1) 0 1,
      Point (-1) 1 (-1), Point (-1) 1 0, Point (-1) 1 1,
      Point 0 (-1) (-1), Point 0 (-1) 0, Point 0 (-1) 1,
      Point 0 0 (-1), Point 0 0 1,
      Point 0 1 (-1), Point 0 1 0, Point 0 1 1,
      Point 1 (-1) (-1), Point 1 (-1) 0, Point 1 (-1) 1,
      Point 1 0 (-1), Point 1 0 0, Point 1 0 1,
      Point 1 1 (-1), Point 1 1 0, Point 1 1 1]"
  by (simp add: lattice_points_def)

lemma lattice_points_distinct: "distinct lattice_points" "length lattice_points = 26"
  by (simp_all add: lattice_points_eq)

lemma piece_wf_pos: "piece_wf p \<Longrightarrow> pos p \<in> set lattice_points"
proof -
  assume wf: "piece_wf p"
  then have "length (colors p) = 3" by (simp add: piece_wf_def)
  then obtain x y z a b c t where
    p: "p = \<lparr>pos = Point x y z, colors = [a, b, c], ptype = t\<rparr>" by (rule piece_form)
  from wf have x: "x = -1 \<or> x = 0 \<or> x = 1" and y: "y = -1 \<or> y = 0 \<or> y = 1"
    and z: "z = -1 \<or> z = 0 \<or> z = 1" and nz: "\<not> (x = 0 \<and> y = 0 \<and> z = 0)"
    unfolding p piece_wf_form by auto
  have "Point x y z \<in> set lattice_points"
    unfolding lattice_points_eq using x y z nz by (elim disjE; simp)
  then show ?thesis by (simp add: p)
qed

lemma cube_wf_positions:
  assumes "cube_wf c"
  shows "set (map pos c) = set lattice_points"
proof (rule card_subset_eq)
  show "finite (set lattice_points)" by simp
  show "set (map pos c) \<subseteq> set lattice_points"
    using assms by (auto simp: cube_wf_def list_all_iff piece_wf_pos)
  have "card (set (map pos c)) = 26"
    using assms distinct_card[of "map pos c"] by (simp add: cube_wf_def)
  then show "card (set (map pos c)) = card (set lattice_points)"
    by (simp add: distinct_card lattice_points_distinct)
qed

lemma refs_filter: "map (\<lambda>i. c ! i) [i \<leftarrow> [0..<length c]. Q (c ! i)] = filter Q c"
proof -
  have "filter Q (map (\<lambda>i. c ! i) [0..<length c]) = map (\<lambda>i. c ! i) [i \<leftarrow> [0..<length c]. Q (c ! i)]"
    by (simp add: filter_map comp_def)
  then show ?thesis by (simp add: map_nth)
qed

lemma count_on_lattice:
  assumes "cube_wf c"
  shows "length [i \<leftarrow> [0..<length c]. P (pos (c ! i))] = length (filter P lattice_points)"
proof -
  have d: "distinct (map pos c)" using assms by (simp add: cube_wf_def)
  have "length [i \<leftarrow> [0..<length c]. P (pos (c ! i))]
      = length (map (\<lambda>i. c ! i) [i \<leftarrow> [0..<length c]. P (pos (c ! i))])" by simp
  also have "\<dots> = length (filter (\<lambda>p. P (pos p)) c)"
    by (rule arg_cong[where f = length]) (rule refs_filter)
  also have "\<dots> = length (filter P (map pos c))" by (simp add: filter_map comp_def)
  also have "\<dots> = card (set (filter P (map pos c)))"
    by (rule distinct_card[symmetric]) (simp add: d)
  also have "set (filter P (map pos c)) = set (filter P lattice_points)"
    using cube_wf_positions[OF assms] by auto
  also have "card (set (filter P lattice_points)) = length (filter P lattice_points)"
    by (rule distinct_card) (simp add: lattice_points_distinct)
  finally show ?thesis .
qed

lemma face_count_axes:
  "0 < a \<Longrightarrow> length (filter (\<lambda>q. 0 < dot q (Point a 0 0)) lattice_points) = 9"
  "a < 0 \<Longrightarrow> length (filter (\<lambda>q. 0 < dot q (Point a 0 0)) lattice_points) = 9"
  "0 < a \<Longrightarrow> length (filter (\<lambda>q. 0 < dot q (Point 0 a 0)) lattice_points) = 9"
  "a < 0 \<Longrightarrow> length (filter (\<lambda>q. 0 < dot q (Point 0 a 0)) lattice_points) = 9"
  "0 < a \<Longrightarrow> length (filter (\<lambda>q. 0 < dot q (Point 0 0 a)) lattice_points) = 9"
  "a < 0 \<Longrightarrow> length (filter (\<lambda>q. 0 < dot q (Point 0 0 a)) lattice_points) = 9"
  unfolding lattice_points_eq by (simp_all add: dot_def)

lemma face_count:
  assumes "point_count axis 0 = 2"
  shows "length (filter (\<lambda>q. 0 < dot q axis) lattice_points) = 9"
proof -
  obtain a b c where axis: "axis = Point a b c" by (cases axis)
  from assms consider "a \<noteq> 0" "b = 0" "c = 0" | "a = 0" "b \<noteq> 0" "c = 0" | "a = 0" "b = 0" "c \<noteq> 0"
    unfolding axis by (auto simp: point_count_def split: if_splits)
  then show ?thesis
  proof cases
    case 1
    then have "0 < a \<or> a < 0" by auto
    with 1 show ?thesis unfolding axis using face_count_axes(1,2)[of a] by blast
  next
    case 2
    then have "0 < b \<or> b < 0" by auto
    with 2 show ?thesis unfolding axis using face_count_axes(3,4)[of b] by blast
  next
    case 3
    then have "0 < c \<or> c < 0" by auto
    with 3 show ?thesis unfolding axis using face_count_axes(5,6)[of c] by blast
  qed
qed

lemma slice_count:
  "length (filter (\<lambda>q. px q = 0) lattice_points) = 8"
  "length (filter (\<lambda>q. py q = 0) lattice_points) = 8"
  "length (filter (\<lambda>q. pz q = 0) lattice_points) = 8"
  by (simp_all add: lattice_points_eq)

lemma piece_wf_kind:
  assumes "piece_wf p"
  shows "(ptype p = FACE) = (point_count (pos p) 0 = 2)"
    and "(ptype p = EDGE) = (point_count (pos p) 0 = 1)"
proof -
  from assms have "length (colors p) = 3" by (simp add: piece_wf_def)
  then obtain x y z a b c t where
    p: "p = \<lparr>pos = Point x y z, colors = [a, b, c], ptype = t\<rparr>" by (rule piece_form)
  from assms have wf: "(a \<noteq> None) = (x \<noteq> 0)" "(b \<noteq> None) = (y \<noteq> 0)" "(c \<noteq> None) = (z \<noteq> 0)"
    "t = (if count_list [a, b, c] None = 2 then FACE
          else if count_list [a, b, c] None = 1 then EDGE else CORNER)"
    unfolding p piece_wf_form by simp_all
  from wf(1-3) have "count_list [a, b, c] None = point_count (Point x y z) 0"
    by (auto simp: point_count_def)
  with wf(4) show "(ptype p = FACE) = (point_count (pos p) 0 = 2)"
    and "(ptype p = EDGE) = (point_count (pos p) 0 = 1)"
    by (simp_all add: p)
qed

lemma count_kind_on_lattice:
  assumes "cube_wf c"
  shows "length [k \<leftarrow> [k \<leftarrow> [0..<length c]. P (pos (c ! k))]. ptype (c ! k) = FACE]
           = length (filter (\<lambda>q. P q \<and> point_count q 0 = 2) lattice_points)"
    and "length [k \<leftarrow> [k \<leftarrow> [0..<length c]. P (pos (c ! k))]. ptype (c ! k) = EDGE]
           = length (filter (\<lambda>q. P q \<and> point_count q 0 = 1) lattice_points)"
proof -
  have wf: "piece_wf (c ! k)" if "k < length c" for k
    using assms that by (simp add: cube_wf_def list_all_length)
  have "[k \<leftarrow> [k \<leftarrow> [0..<length c]. P (pos (c ! k))]. ptype (c ! k) = FACE]
          = [k \<leftarrow> [0..<length c]. P (pos (c ! k)) \<and> point_count (pos (c ! k)) 0 = 2]"
    unfolding filter_filter by (rule filter_cong) (auto simp: piece_wf_kind(1)[OF wf])
  then show "length [k \<leftarrow> [k \<leftarrow> [0..<length c]. P (pos (c ! k))]. ptype (c ! k) = FACE]
           = length (filter (\<lambda>q. P q \<and> point_count q 0 = 2) lattice_points)"
    using count_on_lattice[OF assms, of "\<lambda>q. P q \<and> point_count q 0 = 2"] by simp
  have "[k \<leftarrow> [k \<leftarrow> [0..<length c]. P (pos (c ! k))]. ptype (c ! k) = EDGE]
          = [k \<leftarrow> [0..<length c]. P (pos (c ! k)) \<and> point_count (pos (c ! k)) 0 = 1]"
    unfolding filter_filter by (rule filter_cong) (auto simp: piece_wf_kind(2)[OF wf])
  then show "length [k \<leftarrow> [k \<leftarrow> [0..<length c]. P (pos (c ! k))]. ptype (c ! k) = EDGE]
           = length (filter (\<lambda>q. P q \<and> point_count q 0 = 1) lattice_points)"
    using count_on_lattice[OF assms, of "\<lambda>q. P q \<and> point_count q 0 = 1"] by simp
qed

lemma slice_kind_count:
  "length (filter (\<lambda>q. px q = 0 \<and> point_count q 0 = 2) lattice_points) = 4"
  "length (filter (\<lambda>q. px q = 0 \<and> point_count q 0 = 1) lattice_points) = 4"
  "length (filter (\<lambda>q. py q = 0 \<and> point_count q 0 = 2) lattice_points) = 4"
  "length (filter (\<lambda>q. py q = 0 \<and> point_count q 0 = 1) lattice_points) = 4"
  "length (filter (\<lambda>q. pz q = 0 \<and> point_count q 0 = 2) lattice_points) = 4"
  "length (filter (\<lambda>q. pz q = 0 \<and> point_count q 0 = 1) lattice_points) = 4"
  by (simp_all add: lattice_points_eq point_count_def)

text \<open>
  Claim C7 as stated fails for slices: a slice holds eight pieces, not nine, because the
  ninth lattice point of the layer is the origin, where the cube has no piece.  On the
  solved cube the slice of the plane \<open>X_AXIS + Y_AXIS\<close> is the four face pieces
  right, left, up, down and the four edges between them.
\<close>

theorem slice_of_solved_cube_has_eight_pieces:
  "cube_slice solved_cube (point_add X_AXIS Y_AXIS) = Inr [0, 1, 2, 3, 6, 7, 10, 11]"
  by code_simp

text \<open>
  Claim C7, amended.  On a well-formed cube, for an axis with exactly two zero components
  \<open>_face\<close> returns exactly nine pieces, those whose position has a positive dot
  product with the axis; for a plane with exactly one zero component (such as the sum of
  two unit axes of different directions) \<open>_slice\<close> returns exactly eight pieces,
  those whose coordinate on the plane's zero axis is 0: four of them are face centres and
  four are edges.
\<close>

theorem face_nine_slice_eight:
  assumes "cube_wf c"
  shows "(point_count axis 0 = 2 \<longrightarrow>
            (\<exists>refs. cube_face c axis = Inr refs \<and> length refs = 9 \<and>
               map (\<lambda>i. c ! i) refs = [p \<leftarrow> c. 0 < dot (pos p) axis])) \<and>
         (point_count plane 0 = 1 \<longrightarrow>
            (\<exists>refs i. cube_slice c plane = Inr refs \<and> length refs = 8 \<and>
               i < 3 \<and> point_iter plane ! i = 0 \<and>
               map (\<lambda>k. c ! k) refs = [p \<leftarrow> c. point_iter (pos p) ! i = 0] \<and>
               length [k \<leftarrow> refs. ptype (c ! k) = FACE] = 4 \<and>
               length [k \<leftarrow> refs. ptype (c ! k) = EDGE] = 4))"
proof (intro conjI impI)
  assume "point_count axis 0 = 2"
  then show "\<exists>refs. cube_face c axis = Inr refs \<and> length refs = 9 \<and>
               map (\<lambda>i. c ! i) refs = [p \<leftarrow> c. 0 < dot (pos p) axis]"
    using count_on_lattice[OF assms, of "\<lambda>q. 0 < dot q axis"] face_count[of axis]
      refs_filter[of c "\<lambda>p. 0 < dot (pos p) axis"]
    by (simp add: cube_face_def)
next
  assume plane: "point_count plane 0 = 1"
  obtain a b d where pl: "plane = Point a b d" by (cases plane)
  from plane consider "a = 0" "b \<noteq> 0" "d \<noteq> 0" | "a \<noteq> 0" "b = 0" "d \<noteq> 0" | "a \<noteq> 0" "b \<noteq> 0" "d = 0"
    unfolding pl by (auto simp: point_count_def split: if_splits)
  then show "\<exists>refs i. cube_slice c plane = Inr refs \<and> length refs = 8 \<and>
               i < 3 \<and> point_iter plane ! i = 0 \<and>
               map (\<lambda>k. c ! k) refs = [p \<leftarrow> c. point_iter (pos p) ! i = 0] \<and>
               length [k \<leftarrow> refs. ptype (c ! k) = FACE] = 4 \<and>
               length [k \<leftarrow> refs. ptype (c ! k) = EDGE] = 4"
  proof cases
    case 1
    have "cube_slice c plane = Inr [k \<leftarrow> [0..<length c]. px (pos (c ! k)) = 0]"
      using 1 by (simp add: pl cube_slice_def point_count_def point_iter_def)
    then show ?thesis
      using count_on_lattice[OF assms, of "\<lambda>q. px q = 0"] slice_count(1)
        refs_filter[of c "\<lambda>p. px (pos p) = 0"] 1
        count_kind_on_lattice[OF assms, of "\<lambda>q. px q = 0"] slice_kind_count(1,2)
      by (intro exI[of _ "[k \<leftarrow> [0..<length c]. px (pos (c ! k)) = 0]"] exI[of _ 0])
         (simp add: pl point_iter_def)
  next
    case 2
    have "cube_slice c plane = Inr [k \<leftarrow> [0..<length c]. py (pos (c ! k)) = 0]"
      using 2 by (simp add: pl cube_slice_def point_count_def point_iter_def)
    then show ?thesis
      using count_on_lattice[OF assms, of "\<lambda>q. py q = 0"] slice_count(2)
        refs_filter[of c "\<lambda>p. py (pos p) = 0"] 2
        count_kind_on_lattice[OF assms, of "\<lambda>q. py q = 0"] slice_kind_count(3,4)
      by (intro exI[of _ "[k \<leftarrow> [0..<length c]. py (pos (c ! k)) = 0]"] exI[of _ 1])
         (simp add: pl point_iter_def)
  next
    case 3
    have "cube_slice c plane = Inr [k \<leftarrow> [0..<length c]. pz (pos (c ! k)) = 0]"
      using 3 by (simp add: pl cube_slice_def point_count_def point_iter_def)
    then show ?thesis
      using count_on_lattice[OF assms, of "\<lambda>q. pz q = 0"] slice_count(3)
        refs_filter[of c "\<lambda>p. pz (pos p) = 0"] 3
        count_kind_on_lattice[OF assms, of "\<lambda>q. pz q = 0"] slice_kind_count(5,6)
      by (intro exI[of _ "[k \<leftarrow> [0..<length c]. pz (pos (c ! k)) = 0]"] exI[of _ 2])
         (simp add: pl point_iter_def)
  qed
qed

theorem face_nine_slice_eight_witness:
  "cube_wf solved_cube \<and> point_count RIGHT 0 = 2 \<and> point_count (point_add X_AXIS Y_AXIS) 0 = 1 \<and>
   (\<exists>refs. cube_face solved_cube RIGHT = Inr refs \<and> length refs = 9 \<and>
      map (\<lambda>i. solved_cube ! i) refs = [p \<leftarrow> solved_cube. 0 < dot (pos p) RIGHT]) \<and>
   (\<exists>refs i. cube_slice solved_cube (point_add X_AXIS Y_AXIS) = Inr refs \<and> length refs = 8 \<and>
      i < 3 \<and> point_iter (point_add X_AXIS Y_AXIS) ! i = 0 \<and>
      map (\<lambda>k. solved_cube ! k) refs = [p \<leftarrow> solved_cube. point_iter (pos p) ! i = 0] \<and>
      length [k \<leftarrow> refs. ptype (solved_cube ! k) = FACE] = 4 \<and>
      length [k \<leftarrow> refs. ptype (solved_cube ! k) = EDGE] = 4)"
proof -
  have a: "point_count RIGHT 0 = 2" by (rule axis_counts)
  have b: "point_count (point_add X_AXIS Y_AXIS) 0 = 1"
    by (simp add: point_count_def point_add_def axis_defs)
  from face_nine_slice_eight[OF solved_cube_wf, of RIGHT "point_add X_AXIS Y_AXIS"] a b
    solved_cube_wf
  show ?thesis by blast
qed
section \<open>An unknown name in a sequence\<close>

lemma getattr_error: "getattr other n = Inl e \<Longrightarrow> e = AttributeError"
  by (auto simp: getattr_def split: option.splits)

lemma map_err_getattr_unknown:
  assumes "t \<in> set ts" and "map_of move_table t = None" and "other t = None"
  shows "map_err (getattr other) ts = Inl AttributeError"
  using assms(1)
proof (induction ts)
  case Nil
  then show ?case by simp
next
  case (Cons h ts)
  show ?case
  proof (cases "getattr other h")
    case (Inl e)
    then show ?thesis using getattr_error[OF Inl] by simp
  next
    case (Inr mv)
    with assms(2,3) have "h \<noteq> t" by (auto simp: getattr_def)
    with Cons have "map_err (getattr other) ts = Inl AttributeError" by simp
    with Inr show ?thesis by simp
  qed
qed

text \<open>
  Claim C10.  When some whitespace-delimited token of the argument is not the name of an
  attribute of the cube (neither one of the 24 moves nor any other attribute),
  \<open>sequence\<close> raises \<open>AttributeError\<close> and the cube is exactly as before the
  call: no move of the sequence was applied, not even those named before the bad token.
\<close>

theorem sequence_unknown_name_applies_nothing:
  assumes "t \<in> set (split move_str)" and "map_of move_table t = None" and "other t = None"
  shows "sequence other c move_str = (c, Some AttributeError)"
  using map_err_getattr_unknown[of t "split move_str" other, OF assms] by (simp add: sequence_def)

theorem sequence_unknown_name_applies_nothing_witness:
  "''Q'' \<in> set (split ''R Q U'') \<and> map_of move_table ''Q'' = None \<and>
   sequence (\<lambda>name. None) solved_cube ''R Q U'' = (solved_cube, Some AttributeError)"
proof -
  have a: "''Q'' \<in> set (split ''R Q U'')" by (simp add: split_def isspace_def)
  have b: "map_of move_table ''Q'' = None" by (simp add: move_table_def)
  from sequence_unknown_name_applies_nothing[of "''Q''" "''R Q U''" "\<lambda>name. None" solved_cube] a b
  show ?thesis by simp
qed

section \<open>Construction and rendering\<close>

lemma color_list_explicit:
  "color_list
     [\<lparr>pos = Point 1 0 0, colors = [x28, None, None], ptype = FACE\<rparr>,
      \<lparr>pos = Point (-1) 0 0, colors = [x22, None, None], ptype = FACE\<rparr>,
      \<lparr>pos = Point 0 1 0, colors = [None, x4, None], ptype = FACE\<rparr>,
      \<lparr>pos = Point 0 (-1) 0, colors = [None, x49, None], ptype = FACE\<rparr>,
      \<lparr>pos = Point 0 0 1, colors = [None, None, x25], ptype = FACE\<rparr>,
      \<lparr>pos = Point 0 0 (-1), colors = [None, None, x31], ptype = FACE\<rparr>,
      \<lparr>pos = Point 1 1 0, colors = [x16, x5, None], ptype = EDGE\<rparr>,
      \<lparr>pos = Point 1 (-1) 0, colors = [x40, x50, None], ptype = EDGE\<rparr>,
      \<lparr>pos = Point 1 0 1, colors = [x27, None, x26], ptype = EDGE\<rparr>,
      \<lparr>pos = Point 1 0 (-1), colors = [x29, None, x30], ptype = EDGE\<rparr>,
      \<lparr>pos = Point (-1) 1 0, colors = [x10, x3, None], ptype = EDGE\<rparr>,
      \<lparr>pos = Point (-1) (-1) 0, colors = [x34, x48, None], ptype = EDGE\<rparr>,
      \<lparr>pos = Point (-1) 0 1, colors = [x23, None, x24], ptype = EDGE\<rparr>,
      \<lparr>pos = Point (-1) 0 (-1), colors = [x21, None, x32], ptype = EDGE\<rparr>,
      \<lparr>pos = Point 0 1 1, colors = [None, x7, x13], ptype = EDGE\<rparr>,
      \<lparr>pos = Point 0 1 (-1), colors = [None, x1, x19], ptype = EDGE\<rparr>,
      \<lparr>pos = Point 0 (-1) 1, colors = [None, x46, x37], ptype = EDGE\<rparr>,
      \<lparr>pos = Point 0 (-1) (-1), colors = [None, x52, x43], ptype = EDGE\<rparr>,
      \<lparr>pos = Point 1 1 1, colors = [x15, x8, x14], ptype = CORNER\<rparr>,
      \<lparr>pos = Point 1 1 (-1), colors = [x17, x2, x18], ptype = CORNER\<rparr>,
      \<lparr>pos = Point 1 (-1) 1, colors = [x39, x47, x38], ptype = CORNER\<rparr>,
      \<lparr>pos = Point 1 (-1) (-1), colors = [x41, x53, x42], ptype = CORNER\<rparr>,
      \<lparr>pos = Point (-1) 1 1, colors = [x11, x6, x12], ptype = CORNER\<rparr>,
      \<lparr>pos = Point (-1) 1 (-1), colors = [x9, x0, x20], ptype = CORNER\<rparr>,
      \<lparr>pos = Point (-1) (-1) 1, colors = [x35, x45, x36], ptype = CORNER\<rparr>,
      \<lparr>pos = Point (-1) (-1) (-1), colors = [x33, x51, x44], ptype = CORNER\<rparr>]
   = Inr [x0, x1, x2, x3, x4, x5, x6, x7, x8, x9, x10, x11, x12, x13, x14, x15, x16, x17, x18, x19,
          x20, x21, x22, x23, x24, x25, x26, x27, x28, x29, x30, x31, x32, x33, x34, x35, x36,
          x37, x38, x39, x40, x41, x42, x43, x44, x45, x46, x47, x48, x49, x50, x51, x52, x53]"
  by (simp add: color_list_def face_colors_def cube_face_def color_at_def dot_def axis_defs
      point_count_def upt_rec[of _ "numeral _"] upt_rec[of _ "Suc _"])


text \<open>The 54 indices of the net: the up face, three rows of the four side faces,
  the down face.\<close>

lemma upt_54:
  "[0..<54] =
     [0, 1, 2, 3, 4, 5, 6, 7, 8] @
     [9, 10, 11, 12, 13, 14, 15, 16, 17, 18, 19, 20] @
     [21, 22, 23, 24, 25, 26, 27, 28, 29, 30, 31, 32] @
     [33, 34, 35, 36, 37, 38, 39, 40, 41, 42, 43, 44] @
     [45, 46, 47, 48, 49, 50, 51, 52, 53]"
  by code_simp

lemma Cube_of_stickers:
  assumes "\<forall>k<54. f k \<notin> set string_whitespace"
  shows "Cube (map f [0..<54]) = Inr (stickers_cube f)"
proof -
  have ws: "f k \<notin> set string_whitespace" if "k < 54" for k using assms that by simp
  show ?thesis
    unfolding upt_54
    by (simp add: Cube_def Let_def Piece_def assert_data_def point_iter_def point_add_def
        axis_defs stickers_cube_def ws)
qed

lemma whitespace_literals:
  "CHR '' '' \<in> set string_whitespace" "CHR 0x0A \<in> set string_whitespace"
  "isspace CHR '' ''" "isspace (CHR 0x0A)"
  by (simp_all add: string_whitespace_def isspace_def)

lemma flat_str_of_stickers:
  assumes "\<forall>k<54. f k \<notin> set string_whitespace" and "\<not> isspace (f 0)" and "\<not> isspace (f 53)"
  shows "flat_str (stickers_cube f) = Inr (map f [0..<54])"
proof -
  have cl: "color_list (stickers_cube f) = Inr (map (\<lambda>k. Some (f k)) [0..<54])"
    unfolding stickers_cube_def color_list_explicit upt_54 by simp
  have ws: "f k \<notin> set string_whitespace" if "k < 54" for k using assms(1) that by simp
  show ?thesis
    unfolding flat_str_def cube_str_def cl upt_54
    using assms(2,3)
    by (simp add: template_def str_of_color_def strip_def whitespace_literals ws)
qed

lemma flat_str_roundtrip:
  assumes "length s = 54" and "\<forall>ch\<in>set s. ch \<notin> set string_whitespace"
    and "\<not> isspace (s ! 0)" and "\<not> isspace (s ! 53)"
  shows "bind_err (Cube s) flat_str = Inr s"
proof -
  have s: "map (\<lambda>k. s ! k) [0..<54] = s" using assms(1) map_nth[of s] by simp
  have ws: "\<forall>k<54. s ! k \<notin> set string_whitespace" using assms(1,2) by simp
  from Cube_of_stickers[OF ws] flat_str_of_stickers[OF ws assms(3,4)] show ?thesis
    by (simp add: s)
qed

text \<open>
  Claim C8 fails on a sticker that \<open>str.strip()\<close> takes for whitespace although
  \<open>string.whitespace\<close> does not hold it.  The 54 stickers below are 53 times \<open>O\<close>
  and the unit separator (code point 31): the constructor keeps all 54, \<open>__str__\<close>
  strips the last one from the rendering, and \<open>flat_str\<close> returns 53 characters.
  (\<open>flat_str_roundtrip\<close> above is the round trip where it holds: when the first and
  the last sticker are not whitespace for \<open>str.isspace\<close>.)
\<close>

theorem flat_str_loses_separator_sticker:
  "length (filter (\<lambda>x. x \<notin> set string_whitespace) (replicate 53 CHR ''O'' @ [CHR 0x1F])) = 54 \<and>
   bind_err (Cube (replicate 53 CHR ''O'' @ [CHR 0x1F])) flat_str = Inr (replicate 53 CHR ''O'')"
  by code_simp

section \<open>The optimiser preserves the effect of a move list\<close>















section \<open>The loops of the optimiser\<close>





subsection \<open>Each pass keeps the effect of the list\<close>





subsection \<open>Each pass that changes the list shortens it by two\<close>




subsection \<open>With two calls left a pass raises nothing\<close>




subsection \<open>The three rules\<close>







subsection \<open>\<open>optimize_moves\<close>\<close>

lemma optimize_moves_stages:
  assumes "optimize_moves frames moves = Inr opt"
  obtains r t where "apply_no_full_cube_rotation_optimization frames moves = Inr r"
    and "apply_repeat_three_optimization frames r = Inr t"
    and "apply_do_undo_optimization frames t = Inr opt"
proof -
  from assms obtain r where r: "apply_no_full_cube_rotation_optimization frames moves = Inr r"
    by (cases "apply_no_full_cube_rotation_optimization frames moves")
       (auto simp: optimize_moves_def)
  with assms obtain t where t: "apply_repeat_three_optimization frames r = Inr t"
    by (cases "apply_repeat_three_optimization frames r") (auto simp: optimize_moves_def)
  with assms r have "apply_do_undo_optimization frames t = Inr opt"
    by (simp add: optimize_moves_def)
  with r t that show ?thesis by blast
qed



subsection \<open>The only exception is \<open>RecursionError\<close>\<close>








subsection \<open>The optimiser: fixpoints of the three rules\<close>

lemma do_undo_loop_flag:
  "do_undo_loop frames moves i changed = Inr (moves', changed') \<Longrightarrow> changed \<Longrightarrow> changed'"
proof (induction frames moves i changed rule: do_undo_loop.induct)
  case (1 frames moves i changed)
  show ?case
  proof (cases "i + 1 < length moves")
    case False
    with "1.prems" show ?thesis by (subst (asm) do_undo_loop.simps) simp
  next
    case True
    with "1.prems" have fr: "frames \<noteq> 0"
      by (subst (asm) do_undo_loop.simps) (auto split: if_splits)
    show ?thesis
    proof (cases "invert (moves ! i) = moves ! (i + 1)")
      case eq: True
      from "1.prems"(1) True eq fr
      have "do_undo_loop frames (take i moves @ drop (i + 2) moves) i True = Inr (moves', changed')"
        by (subst (asm) do_undo_loop.simps) auto
      from "1.IH"(1)[OF True fr eq this] show ?thesis by simp
    next
      case neq: False
      from "1.prems"(1) True neq fr
      have "do_undo_loop frames moves (i + 1) changed = Inr (moves', changed')"
        by (subst (asm) do_undo_loop.simps) auto
      from "1.IH"(2)[OF True fr neq this "1.prems"(2)] show ?thesis .
    qed
  qed
qed

lemma do_undo_loop_unchanged:
  "do_undo_loop frames moves i changed = Inr (moves', False) \<Longrightarrow> moves' = moves"
proof (induction frames moves i changed rule: do_undo_loop.induct)
  case (1 frames moves i changed)
  show ?case
  proof (cases "i + 1 < length moves")
    case False
    with "1.prems" show ?thesis by (subst (asm) do_undo_loop.simps) simp
  next
    case True
    with "1.prems" have fr: "frames \<noteq> 0"
      by (subst (asm) do_undo_loop.simps) (auto split: if_splits)
    show ?thesis
    proof (cases "invert (moves ! i) = moves ! (i + 1)")
      case eq: True
      from "1.prems" True eq fr
      have "do_undo_loop frames (take i moves @ drop (i + 2) moves) i True = Inr (moves', False)"
        by (subst (asm) do_undo_loop.simps) auto
      from do_undo_loop_flag[OF this] show ?thesis by simp
    next
      case neq: False
      from "1.prems" True neq fr
      have "do_undo_loop frames moves (i + 1) changed = Inr (moves', False)"
        by (subst (asm) do_undo_loop.simps) auto
      from "1.IH"(2)[OF True fr neq this] show ?thesis .
    qed
  qed
qed

text \<open>A pass that raised nothing gives the same result with more calls left.\<close>

lemma do_undo_loop_more_frames:
  "do_undo_loop frames moves i changed = Inr res \<Longrightarrow> frames \<le> frames' \<Longrightarrow>
   do_undo_loop frames' moves i changed = Inr res"
proof (induction frames moves i changed rule: do_undo_loop.induct)
  case (1 frames moves i changed)
  show ?case
  proof (cases "i + 1 < length moves")
    case False
    with "1.prems" show ?thesis
      by (subst do_undo_loop.simps, subst (asm) do_undo_loop.simps) simp
  next
    case True
    with "1.prems" have fr: "frames \<noteq> 0"
      by (subst (asm) do_undo_loop.simps) (auto split: if_splits)
    with "1.prems"(2) have fr': "frames' \<noteq> 0" by simp
    show ?thesis
    proof (cases "invert (moves ! i) = moves ! (i + 1)")
      case eq: True
      from "1.prems"(1) True eq fr
      have "do_undo_loop frames (take i moves @ drop (i + 2) moves) i True = Inr res"
        by (subst (asm) do_undo_loop.simps) auto
      from "1.IH"(1)[OF True fr eq this "1.prems"(2)] True eq fr' show ?thesis
        by (subst do_undo_loop.simps) simp
    next
      case neq: False
      from "1.prems"(1) True neq fr
      have "do_undo_loop frames moves (i + 1) changed = Inr res"
        by (subst (asm) do_undo_loop.simps) auto
      from "1.IH"(2)[OF True fr neq this "1.prems"(2)] True neq fr' show ?thesis
        by (subst do_undo_loop.simps) simp
    qed
  qed
qed

lemma apply_do_undo_fixpoint:
  "apply_do_undo_optimization frames moves = Inr r \<Longrightarrow>
   frames \<noteq> 0 \<and> do_undo_loop (frames - 1) r 0 False = Inr (r, False)"
proof (induction frames moves rule: apply_do_undo_optimization.induct)
  case (1 frames moves)
  from "1.prems" have fr: "frames \<noteq> 0"
    by (subst (asm) apply_do_undo_optimization.simps) (auto split: if_splits)
  with "1.prems" obtain moves' changed where
    loop: "do_undo_loop (frames - 1) moves 0 False = Inr (moves', changed)"
    by (subst (asm) apply_do_undo_optimization.simps) (auto split: sum.splits)
  show ?case
  proof (cases changed)
    case True
    with "1.prems" fr loop have "apply_do_undo_optimization (frames - 1) moves' = Inr r"
      by (subst (asm) apply_do_undo_optimization.simps) simp
    from "1.IH"[OF fr loop refl True this]
    have "do_undo_loop (frames - 1 - 1) r 0 False = Inr (r, False)" by simp
    from do_undo_loop_more_frames[OF this, of "frames - 1"] fr show ?thesis by simp
  next
    case False
    with "1.prems" fr loop have "r = moves'"
      by (subst (asm) apply_do_undo_optimization.simps) simp
    with loop False do_undo_loop_unchanged[of "frames - 1" moves 0 False moves'] fr
    show ?thesis by simp
  qed
qed

lemma apply_do_undo_idem:
  "apply_do_undo_optimization frames moves = Inr r \<Longrightarrow>
   apply_do_undo_optimization frames r = Inr r"
  using apply_do_undo_fixpoint[of frames moves r]
  by (subst apply_do_undo_optimization.simps) simp

lemma do_undo_loop_needs_frame:
  "do_undo_loop frames moves 0 False = Inr res \<Longrightarrow> 1 < length moves \<Longrightarrow> frames \<noteq> 0"
  by (subst (asm) do_undo_loop.simps) (auto split: if_splits)

lemma repeat_three_loop_no_triple:
  "no_triple moves \<Longrightarrow> repeat_three_loop frames moves i False = Inr (moves, False)"
proof (induction "length moves - i" arbitrary: i)
  case 0
  then show ?case by (subst repeat_three_loop.simps) simp
next
  case (Suc n)
  show ?case
  proof (cases "i + 2 < length moves")
    case False
    then show ?thesis by (subst repeat_three_loop.simps) simp
  next
    case True
    with Suc.prems have "\<not> (moves ! i = moves ! (i + 1) \<and> moves ! (i + 1) = moves ! (i + 2))"
      by (auto simp: no_triple_def list_all_iff)
    moreover from Suc.hyps(2) have "n = length moves - (i + 1)" by simp
    from Suc.hyps(1)[OF this Suc.prems]
    have "repeat_three_loop frames moves (i + 1) False = Inr (moves, False)" .
    ultimately show ?thesis using True by (subst repeat_three_loop.simps) auto
  qed
qed

lemma apply_repeat_three_no_triple:
  "no_triple moves \<Longrightarrow> frames \<noteq> 0 \<Longrightarrow> apply_repeat_three_optimization frames moves = Inr moves"
  using repeat_three_loop_no_triple[of moves "frames - 1" 0]
  by (subst apply_repeat_three_optimization.simps) simp

lemma rotation_loop_no_pair:
  assumes "no_rotation_pair moves" and "1 < length moves \<longrightarrow> frames \<noteq> 0"
  shows "rotation_loop frames moves i False = Inr (moves, False)"
  using assms(1)
proof (induction "length moves - i" arbitrary: i)
  case 0
  then show ?case by (subst rotation_loop.simps) simp
next
  case (Suc n)
  show ?case
  proof (cases "i < length moves")
    case False
    then show ?thesis by (subst rotation_loop.simps) simp
  next
    case True
    with Suc.prems have "moves ! i \<notin> set rots \<or> find_inverse moves i = None"
      by (auto simp: no_rotation_pair_def list_all_iff)
    moreover from Suc.hyps(2) have "n = length moves - (i + 1)" by simp
    from Suc.hyps(1)[OF this Suc.prems]
    have "rotation_loop frames moves (i + 1) False = Inr (moves, False)" .
    moreover from assms(2) have "\<not> (i + 1 < length moves \<and> frames = 0)" by auto
    ultimately show ?thesis using True by (subst rotation_loop.simps) auto
  qed
qed

lemma apply_rotation_no_pair:
  assumes "no_rotation_pair moves" and "frames \<noteq> 0" and "1 < length moves \<longrightarrow> frames - 1 \<noteq> 0"
  shows "apply_no_full_cube_rotation_optimization frames moves = Inr moves"
  using assms(2) rotation_loop_no_pair[OF assms(1,3), of 0]
  by (subst apply_no_full_cube_rotation_optimization.simps) simp

section \<open>Replaying the optimised list\<close>

subsection \<open>A list that needs one pass per cancelled pair\<close>



















section \<open>Optimising twice\<close>

text \<open>
  Claim C9 as stated, that \<open>optimize_moves\<close> is idempotent on every list, fails:
  on \<open>R R L Li R\<close> the cancel-pair rule, which runs last, leaves \<open>R R R\<close>, and a
  second run collapses that to \<open>Ri\<close>.
\<close>

theorem optimize_moves_not_idempotent:
  "bind_err (optimize_moves 1000 [''R'', ''R'', ''L'', ''Li'', ''R'']) (optimize_moves 1000)
     \<noteq> optimize_moves 1000 [''R'', ''R'', ''L'', ''Li'', ''R'']"
  by code_simp

text \<open>
  Claim C9, amended: when the output of \<open>optimize_moves\<close> holds no cube rotation
  with a later inverse and no three equal names in a row (patterns that only the last rule
  can leave behind), optimising it again returns the same list.
\<close>

theorem optimize_moves_idempotent_when_settled:
  assumes "optimize_moves frames ms = Inr r" and "no_rotation_pair r" and "no_triple r"
  shows "bind_err (optimize_moves frames ms) (optimize_moves frames) = optimize_moves frames ms"
proof -
  from assms(1) obtain t where t: "apply_do_undo_optimization frames t = Inr r"
    by (rule optimize_moves_stages)
  note fp = apply_do_undo_fixpoint[OF t]
  from fp have fr: "frames \<noteq> 0" by simp
  from fp do_undo_loop_needs_frame have inner: "1 < length r \<longrightarrow> frames - 1 \<noteq> 0" by blast
  have "optimize_moves frames r = Inr r"
    by (simp add: optimize_moves_def apply_rotation_no_pair[OF assms(2) fr inner]
        apply_repeat_three_no_triple[OF assms(3) fr] apply_do_undo_idem[OF t])
  then show ?thesis by (simp add: assms(1))
qed

theorem optimize_moves_idempotent_when_settled_witness:
  "optimize_moves 1000 [''R'', ''R'', ''R'', ''X'', ''U'', ''Xi'', ''L'', ''Li'']
     = Inr [''Ri'', ''F''] \<and>
   no_rotation_pair [''Ri'', ''F''] \<and> no_triple [''Ri'', ''F''] \<and>
   bind_err (optimize_moves 1000 [''R'', ''R'', ''R'', ''X'', ''U'', ''Xi'', ''L'', ''Li''])
     (optimize_moves 1000) = Inr [''Ri'', ''F'']"
proof -
  have a: "optimize_moves 1000 [''R'', ''R'', ''R'', ''X'', ''U'', ''Xi'', ''L'', ''Li'']
             = Inr [''Ri'', ''F'']"
    by code_simp
  have b: "no_rotation_pair [''Ri'', ''F'']" by code_simp
  have c: "no_triple [''Ri'', ''F'']" by code_simp
  from optimize_moves_idempotent_when_settled[OF a b c] a b c show ?thesis by simp
qed
end
